theory Spec2Isabelle
  imports Complex_Main
begin

unbundle bit_operations_syntax

section \<open>Mixed-precision conjugate gradient: the control loop of \<open>lib/inv_cg_quda.cpp\<close>\<close>

text \<open>
  The development embeds the numerical control loop of \<open>CG::operator()\<close> (one right-hand
  side), the reliable-update test and the residual bookkeeping of \<open>CG::solve_n\<close> (block
  solver) and the dispatcher \<open>CG::solve\<close>.

  Conventions of the embedding.
  \<^item> A \<open>double\<close> is a \<open>real\<close>: rounding, infinities and NaN are outside the model, and a
    division by zero has HOL's value 0. An \<open>int\<close> is an \<open>int\<close>; the counters of the solver
    stay far from the limits of a machine word.
  \<^item> A colour-spinor field is the list of its complex components. Precision conversion on
    copy is the identity. Whether the sloppy fields share the storage of the reference
    fields is decided once per solve and kept in the solver's context; a write to one
    name of a shared buffer is a write to the other.
  \<^item> \<open>errorQuda\<close> does not return: a call is the left injection of a sum. \<open>warningQuda\<close>,
    \<open>printfQuda\<close>, the profiler and the flop counters have no effect on the values computed
    and are left out.
  \<^item> Scratch arguments of an operator application (\<open>tmp\<close>, \<open>tmp2\<close>, \<open>tmp3\<close>) hold no value
    that is read back and are left out.
\<close>

subsection \<open>Build configuration and enumerations\<close>

text \<open>
  The preprocessor switches the file tests, and the two constants it reads from headers
  that are not part of the sources at hand (their values are parameters).
\<close>

record build =
  BLOCKSOLVER :: bool
  ALTRELIABLE :: bool
  BLOCKSOLVER_RELIABLE_POLICY_MIN :: bool
  QUDA_MAX_BLOCK_SRC :: int
  QUDA_HEAVY_QUARK_RESIDUAL :: int

text \<open>
  Modelled from the spec: the enumerations \<open>QudaFieldLocation\<close> and
  \<open>QudaComputeNullVector\<close> are declared in a header outside the sources. The spec names
  the supported field location and the two settings of \<open>compute_null_vector\<close>.
\<close>

datatype QudaFieldLocation =
  QUDA_CPU_FIELD_LOCATION | QUDA_CUDA_FIELD_LOCATION | QUDA_INVALID_FIELD_LOCATION

datatype QudaComputeNullVector =
  QUDA_COMPUTE_NULL_VECTOR_NO | QUDA_COMPUTE_NULL_VECTOR_YES

text \<open>One constructor for each call of \<open>errorQuda\<close> in the file, with its arguments.\<close>

datatype quda_error =
    Not_supported
  | Zero_field_source_block
  | Heavy_quark_not_supported_in_block
  | Blocksolver_not_built
  | Num_src_exceeds_max int int
  | Dimension_not_supported int

subsection \<open>Field kernels\<close>

type_synonym field = "complex list"

text \<open>
  Modelled from the spec: the BLAS-like field kernels live in \<open>blas_quda\<close>, outside the
  sources. Section 6 of the spec gives each by its effect; a kernel that updates a field
  returns the new field, a fused kernel returns the field together with its reduction.
\<close>

definition cDotProduct :: "field \<Rightarrow> field \<Rightarrow> complex" where
  "cDotProduct a b = (\<Sum>(u, v)\<leftarrow>zip a b. cnj u * v)"

definition reDotProduct :: "field \<Rightarrow> field \<Rightarrow> real" where
  "reDotProduct a b = Re (cDotProduct a b)"

definition norm2 :: "field \<Rightarrow> real" where
  "norm2 a = (\<Sum>z\<leftarrow>a. (Re z)\<^sup>2 + (Im z)\<^sup>2)"

definition zero_field :: "field \<Rightarrow> field" where
  "zero_field a = map (\<lambda>z. 0) a"

definition caxpy :: "complex \<Rightarrow> field \<Rightarrow> field \<Rightarrow> field" where
  \<comment> \<open>\<open>y \<leftarrow> a x + y\<close>\<close>
  "caxpy a x y = map (\<lambda>(u, v). a * u + v) (zip x y)"

definition axpy :: "real \<Rightarrow> field \<Rightarrow> field \<Rightarrow> field" where
  \<comment> \<open>\<open>y \<leftarrow> a x + y\<close>\<close>
  "axpy a x y = caxpy (complex_of_real a) x y"

definition xpy :: "field \<Rightarrow> field \<Rightarrow> field" where
  \<comment> \<open>\<open>y \<leftarrow> x + y\<close>\<close>
  "xpy x y = map (\<lambda>(u, v). u + v) (zip x y)"

definition xpay :: "field \<Rightarrow> real \<Rightarrow> field \<Rightarrow> field" where
  \<comment> \<open>\<open>y \<leftarrow> x + a y\<close>\<close>
  "xpay x a y = map (\<lambda>(u, v). u + complex_of_real a * v) (zip x y)"

definition xmy :: "field \<Rightarrow> field \<Rightarrow> field" where
  \<comment> \<open>\<open>y \<leftarrow> x - y\<close>\<close>
  "xmy x y = map (\<lambda>(u, v). u - v) (zip x y)"

definition xmyNorm :: "field \<Rightarrow> field \<Rightarrow> field \<times> real" where
  \<comment> \<open>\<open>r \<leftarrow> b - r\<close>, returns \<open>\<parallel>r\<parallel>\<^sup>2\<close>\<close>
  "xmyNorm b r = (let r' = xmy b r in (r', norm2 r'))"

definition axpyNorm :: "real \<Rightarrow> field \<Rightarrow> field \<Rightarrow> field \<times> real" where
  \<comment> \<open>\<open>y \<leftarrow> a x + y\<close>, returns \<open>\<parallel>y\<parallel>\<^sup>2\<close>\<close>
  "axpyNorm a x y = (let y' = axpy a x y in (y', norm2 y'))"

definition axpyCGNorm :: "real \<Rightarrow> field \<Rightarrow> field \<Rightarrow> field \<times> complex" where
  \<comment> \<open>\<open>y \<leftarrow> a x + y\<close>, returns the packed pair \<open>(\<parallel>y_new\<parallel>\<^sup>2, \<langle>y_new, y_new - y_old\<rangle>)\<close>\<close>
  "axpyCGNorm a x y =
     (let y' = axpy a x y in (y', Complex (norm2 y') (reDotProduct y' (xmy y' y))))"

definition axpyZpbx :: "real \<Rightarrow> field \<Rightarrow> field \<Rightarrow> field \<Rightarrow> real \<Rightarrow> field \<times> field" where
  \<comment> \<open>\<open>x \<leftarrow> x + a p; p \<leftarrow> r + b p\<close>, returns the new \<open>(x, p)\<close>\<close>
  "axpyZpbx a p x r b = (axpy a p x, xpay r b p)"

definition tripleCGReduction :: "field \<Rightarrow> field \<Rightarrow> field \<Rightarrow> real \<times> real \<times> real" where
  \<comment> \<open>\<open>(\<langle>r, r\<rangle>, \<langle>Ap, Ap\<rangle>, \<langle>p, Ap\<rangle>)\<close>\<close>
  "tripleCGReduction r Ap p = (norm2 r, norm2 Ap, reDotProduct p Ap)"

definition quadrupleCGReduction :: "field \<Rightarrow> field \<Rightarrow> field \<Rightarrow> real \<times> real \<times> real \<times> real" where
  \<comment> \<open>\<open>(\<langle>r, r\<rangle>, \<langle>Ap, Ap\<rangle>, \<langle>p, Ap\<rangle>, \<langle>p, p\<rangle>)\<close>\<close>
  "quadrupleCGReduction r Ap p = (norm2 r, norm2 Ap, reDotProduct p Ap, norm2 p)"

definition cDotProductNormA :: "field \<Rightarrow> field \<Rightarrow> real \<times> real \<times> real" where
  \<comment> \<open>\<open>(Re \<langle>a, b\<rangle>, Im \<langle>a, b\<rangle>, \<langle>a, a\<rangle>)\<close>\<close>
  "cDotProductNormA a b = (Re (cDotProduct a b), Im (cDotProduct a b), norm2 a)"

subsection \<open>Parameters, host interface and state of the single right-hand-side solver\<close>

text \<open>
  \<open>SolverParam\<close> holds the members of \<open>param\<close> the file reads or writes (\<open>param.tol\<close> is
  \<open>param_tol\<close>, and so on). The timing members \<open>secs\<close> and \<open>gflops\<close> are left out.
\<close>

record SolverParam =
  param_tol :: real
  param_tol_hq :: real
  param_residual_type :: int
  param_maxiter :: int
  param_delta :: real
  param_max_res_increase :: int
  param_max_res_increase_total :: int
  param_precision :: int
  param_precision_sloppy :: int
  param_use_sloppy_partial_accumulator :: bool
  param_pipeline :: bool
  param_compute_true_res :: bool
  param_compute_null_vector :: QudaComputeNullVector
  param_num_src :: int
  param_heavy_quark_check :: int
  param_true_res :: real
  param_true_res_hq :: real
  param_iter :: int

text \<open>
  The collaborators the solver calls and whose effect the spec leaves open: the two
  operators, the heavy-quark residual kernels (the \<open>.z\<close> component of the packed triple),
  the fused pipelined update (the new \<open>xSloppy\<close>, \<open>rSloppy\<close> and \<open>p\<close>) and the convergence
  predicates of the \<open>Solver\<close> base class. They are parameters of the model.
\<close>

record host =
  mat :: "field \<Rightarrow> field"
  matSloppy :: "field \<Rightarrow> field"
  HeavyQuarkResidualNorm_z :: "field \<Rightarrow> field \<Rightarrow> real"
  xpyHeavyQuarkResidualNorm_z :: "field \<Rightarrow> field \<Rightarrow> field \<Rightarrow> real"
  tripleCGUpdate :: "real \<Rightarrow> real \<Rightarrow> field \<Rightarrow> field \<Rightarrow> field \<Rightarrow> field \<Rightarrow> field \<times> field \<times> field"
  convergence :: "real \<Rightarrow> real \<Rightarrow> real \<Rightarrow> real \<Rightarrow> bool"
  convergenceL2 :: "real \<Rightarrow> real \<Rightarrow> real \<Rightarrow> real \<Rightarrow> bool"
  convergenceHQ :: "real \<Rightarrow> real \<Rightarrow> real \<Rightarrow> real \<Rightarrow> bool"

text \<open>
  Modelled from the spec: \<open>stopping\<close> is a member of the \<open>Solver\<close> base class, outside the
  sources. The spec gives the threshold as \<open>stop = tol\<^sup>2 \<cdot> \<parallel>b\<parallel>\<^sup>2\<close>.
\<close>

definition stopping :: "real \<Rightarrow> real \<Rightarrow> int \<Rightarrow> real" where
  "stopping tol b2 residual_type = tol * tol * b2"

text \<open>
  What \<open>CG::operator()\<close> fixes before its loop and only reads inside it. \<open>b_field\<close> is the
  source \<open>b\<close> and \<open>u_sloppy\<close> the constant \<open>u\<close>; \<open>x_is_xSloppy\<close> and \<open>r_is_rSloppy\<close> say
  whether \<open>&x == &xSloppy\<close> and \<open>&r == &rSloppy\<close>.
\<close>

record cg_ctx =
  bld :: build
  hst :: host
  prm :: SolverParam
  b_field :: field
  b2 :: real
  stop :: real
  u_sloppy :: real
  uhigh :: real
  deps :: real
  Anorm :: real
  xNorm :: real
  use_heavy_quark_res :: bool
  heavy_quark_check :: int
  maxResIncrease :: int
  maxResIncreaseTotal :: int
  hqmaxresIncrease :: int
  x_is_xSloppy :: bool
  r_is_rSloppy :: bool

text \<open>
  The variables the loop changes. The fields \<open>x\<close>, \<open>y\<close>, \<open>r\<close>, \<open>p\<close> are \<open>x_field\<close>, \<open>y_field\<close>,
  \<open>r_field\<close>, \<open>p_field\<close>; \<open>d\<close> is \<open>d_err\<close> and \<open>k\<close> is \<open>k_iter\<close>. The locals of one iteration
  (\<open>sigma\<close>, \<open>breakdown\<close>, \<open>updateX\<close>, \<open>updateR\<close>) are carried in the state as well. \<open>r2_old\<close>
  and \<open>pAp\<close> are declared without a value and written before they are read.
\<close>

record cg_state =
  x_field :: field
  y_field :: field
  r_field :: field
  rSloppy :: field
  xSloppy :: field
  p_field :: field
  Ap :: field
  r2 :: real
  r2_old :: real
  pAp :: real
  alpha :: real
  beta :: real
  sigma :: real
  rNorm :: real
  r0Norm :: real
  maxrx :: real
  maxrr :: real
  delta :: real
  heavy_quark_res :: real
  heavy_quark_res_old :: real
  d_err :: real
  d_new :: real
  dinit :: real
  xnorm :: real
  pnorm :: real
  ppnorm :: real
  k_iter :: int
  rUpdate :: int
  resIncrease :: int
  resIncreaseTotal :: int
  hqresIncrease :: int
  steps_since_reliable :: int
  updateX :: int
  updateR :: int
  L2breakdown :: bool
  heavy_quark_restart :: bool
  breakdown :: bool
  converged :: bool

text \<open>Writes to a field that may share its storage with another name.\<close>

definition set_rSloppy :: "cg_ctx \<Rightarrow> field \<Rightarrow> cg_state \<Rightarrow> cg_state" where
  "set_rSloppy c v s =
     (if r_is_rSloppy c then s\<lparr>rSloppy := v, r_field := v\<rparr> else s\<lparr>rSloppy := v\<rparr>)"

definition set_r :: "cg_ctx \<Rightarrow> field \<Rightarrow> cg_state \<Rightarrow> cg_state" where
  "set_r c v s =
     (if r_is_rSloppy c then s\<lparr>r_field := v, rSloppy := v\<rparr> else s\<lparr>r_field := v\<rparr>)"

definition set_xSloppy :: "cg_ctx \<Rightarrow> field \<Rightarrow> cg_state \<Rightarrow> cg_state" where
  "set_xSloppy c v s =
     (if x_is_xSloppy c then s\<lparr>xSloppy := v, x_field := v\<rparr> else s\<lparr>xSloppy := v\<rparr>)"

definition set_x :: "cg_ctx \<Rightarrow> field \<Rightarrow> cg_state \<Rightarrow> cg_state" where
  "set_x c v s =
     (if x_is_xSloppy c then s\<lparr>x_field := v, xSloppy := v\<rparr> else s\<lparr>x_field := v\<rparr>)"

subsection \<open>One iteration of \<open>CG::operator()\<close>\<close>

text \<open>
  The operator application and the reductions (lines 279--323). This is the branch without
  \<open>param.pipeline\<close>: \<open>pAp\<close>, \<open>alpha\<close>, the fused update of \<open>rSloppy\<close> and \<open>sigma\<close>.
\<close>

definition cg_reduction_plain :: "cg_ctx \<Rightarrow> cg_state \<Rightarrow> cg_state" where
  "cg_reduction_plain c s0 =
     (let s1 = s0\<lparr>r2_old := r2 s0\<rparr>;
          s2 = (if ALTRELIABLE (bld c)
                then (case cDotProductNormA (p_field s1) (Ap s1) of
                        (px, py, pz) \<Rightarrow> s1\<lparr>pAp := px, ppnorm := pz\<rparr>)
                else s1\<lparr>pAp := reDotProduct (p_field s1) (Ap s1)\<rparr>);
          s3 = s2\<lparr>alpha := r2 s2 / pAp s2\<rparr>
      in (case axpyCGNorm (- alpha s3) (Ap s3) (rSloppy s3) of
            (rS, cg_norm) \<Rightarrow>
              (let s4 = (set_rSloppy c rS s3)\<lparr>r2 := Re cg_norm\<rparr>
               in s4\<lparr>sigma := (if Im cg_norm \<ge> 0 then Im cg_norm else r2 s4)\<rparr>)))"

text \<open>The branch with \<open>param.pipeline\<close>; \<open>Ap2\<close> is local to it.\<close>

definition cg_reduction_pipeline :: "cg_ctx \<Rightarrow> cg_state \<Rightarrow> cg_state" where
  "cg_reduction_pipeline c s0 =
     (case (if ALTRELIABLE (bld c)
            then quadrupleCGReduction (rSloppy s0) (Ap s0) (p_field s0)
            else (case tripleCGReduction (rSloppy s0) (Ap s0) (p_field s0) of
                    (tx, ty, tz) \<Rightarrow> (tx, ty, tz, ppnorm s0))) of
        (qx, Ap2, qz, qw) \<Rightarrow>
          (let s1 = s0\<lparr>r2 := qx, pAp := qz, ppnorm := qw\<rparr>;
               s2 = s1\<lparr>r2_old := r2 s1\<rparr>;
               s3 = s2\<lparr>alpha := r2 s2 / pAp s2\<rparr>;
               s4 = s3\<lparr>sigma := alpha s3 * (alpha s3 * Ap2 - pAp s3)\<rparr>;
               s5 = (if sigma s4 < 0 \<or> steps_since_reliable s4 = 0
                     then (case axpyNorm (- alpha s4) (Ap s4) (rSloppy s4) of
                             (rS, n) \<Rightarrow> (set_rSloppy c rS s4)\<lparr>r2 := n, sigma := n, breakdown := True\<rparr>)
                     else s4)
           in s5\<lparr>r2 := sigma s5\<rparr>))"

definition cg_reduction :: "cg_ctx \<Rightarrow> cg_state \<Rightarrow> cg_state" where
  "cg_reduction c s0 =
     (let s = s0\<lparr>Ap := matSloppy (hst c) (p_field s0), breakdown := False\<rparr>
      in if param_pipeline (prm c) then cg_reduction_pipeline c s else cg_reduction_plain c s)"

text \<open>The reliable-update conditions (lines 325--343); \<open>dfac\<close> is the constant 1.1.\<close>

definition dfac :: real where
  "dfac = 11 / 10"

definition reliable_conditions :: "cg_ctx \<Rightarrow> cg_state \<Rightarrow> cg_state" where
  "reliable_conditions c s0 =
     (let s = s0\<lparr>rNorm := sqrt (r2 s0)\<rparr>
      in if ALTRELIABLE (bld c)
         then s\<lparr>updateX :=
                  (if (d_err s \<le> deps c * sqrt (r2_old s) \<or> dfac * dinit s > deps c * r0Norm s)
                      \<and> d_new s > deps c * rNorm s \<and> d_new s > dfac * dinit s
                   then 1 else 0),
                updateR := 0\<rparr>
         else
           (let s1 = (if rNorm s > maxrx s then s\<lparr>maxrx := rNorm s\<rparr> else s);
                s2 = (if rNorm s1 > maxrr s1 then s1\<lparr>maxrr := rNorm s1\<rparr> else s1);
                s3 = s2\<lparr>updateX :=
                          (if rNorm s2 < delta s2 * r0Norm s2 \<and> r0Norm s2 \<le> maxrx s2
                           then 1 else 0)\<rparr>
            in s3\<lparr>updateR :=
                      (if (rNorm s3 < delta s3 * maxrr s3 \<and> r0Norm s3 \<le> maxrr s3) \<or> updateX s3 \<noteq> 0
                       then 1 else 0)\<rparr>))"

text \<open>The forced reliable updates (lines 345--351).\<close>

definition force_update :: "cg_ctx \<Rightarrow> cg_state \<Rightarrow> cg_state" where
  "force_update c s =
     (let s1 = (if convergence (hst c) (r2 s) (heavy_quark_res s) (stop c) (param_tol_hq (prm c))
                   \<and> param_delta (prm c) \<ge> param_tol (prm c)
                then s\<lparr>updateX := 1\<rparr> else s)
      in if use_heavy_quark_res c \<and> L2breakdown s1
            \<and> convergenceHQ (hst c) (r2 s1) (heavy_quark_res s1) (stop c) (param_tol_hq (prm c))
            \<and> param_delta (prm c) \<ge> param_tol (prm c)
         then s1\<lparr>updateX := 1\<rparr> else s1)"

text \<open>
  The branch without a reliable update (lines 354--378). In C++ \<open>k % heavy_quark_check\<close> is
  undefined for \<open>heavy_quark_check = 0\<close>; for every other value it is zero exactly when
  \<open>mod\<close> is.
\<close>

definition no_update :: "cg_ctx \<Rightarrow> cg_state \<Rightarrow> cg_state" where
  "no_update c s0 =
     (let s = s0\<lparr>beta := sigma s0 / r2_old s0\<rparr>;
          s1 = (if param_pipeline (prm c) \<and> \<not> breakdown s
                then (case tripleCGUpdate (hst c) (alpha s) (beta s) (Ap s) (xSloppy s) (rSloppy s)
                             (p_field s) of
                        (x', r', p') \<Rightarrow> (set_rSloppy c r' (set_xSloppy c x' s))\<lparr>p_field := p'\<rparr>)
                else (case axpyZpbx (alpha s) (p_field s) (xSloppy s) (rSloppy s) (beta s) of
                        (x', p') \<Rightarrow> (set_xSloppy c x' s)\<lparr>p_field := p'\<rparr>));
          s2 = (if use_heavy_quark_res c \<and> k_iter s1 mod heavy_quark_check c = 0
                then (if \<not> x_is_xSloppy c
                      then s1\<lparr>heavy_quark_res :=
                                sqrt (xpyHeavyQuarkResidualNorm_z (hst c) (xSloppy s1) (y_field s1)
                                        (rSloppy s1))\<rparr>
                      else (let t = set_r c (rSloppy s1) s1
                            in t\<lparr>heavy_quark_res :=
                                  sqrt (xpyHeavyQuarkResidualNorm_z (hst c) (x_field t) (y_field t)
                                          (r_field t))\<rparr>))
                else s1);
          s3 = (if ALTRELIABLE (bld c)
                then (let t1 = s2\<lparr>d_err := d_new s2\<rparr>;
                          t2 = t1\<lparr>pnorm := pnorm t1 + alpha t1 * alpha t1 * ppnorm t1\<rparr>;
                          t3 = t2\<lparr>xnorm := sqrt (pnorm t2)\<rparr>
                      in t3\<lparr>d_new := d_err t3 + u_sloppy c * rNorm t3 + uhigh c * Anorm c * xnorm t3\<rparr>)
                else s2)
      in s3\<lparr>steps_since_reliable := steps_since_reliable s3 + 1\<rparr>)"

text \<open>
  The reliable update, in the order of the source. First the flush of the sloppy solution
  into \<open>y\<close>, the true residual and the reset of the tracked norms (lines 382--407). The
  operator uses \<open>x\<close> as scratch there; \<open>x\<close> is not read again before \<open>copy(x, xSloppy)\<close> or
  \<open>zero(xSloppy)\<close> writes it.
\<close>

definition ru_recompute :: "cg_ctx \<Rightarrow> cg_state \<Rightarrow> cg_state" where
  "ru_recompute c s0 =
     (let s1 = set_xSloppy c (axpy (alpha s0) (p_field s0) (xSloppy s0)) s0;
          s2 = set_x c (xSloppy s1) s1;
          s3 = s2\<lparr>y_field := xpy (x_field s2) (y_field s2)\<rparr>
      in (case xmyNorm (b_field c) (mat (hst c) (y_field s3)) of
            (r', n) \<Rightarrow>
              (let s4 = (set_r c r' s3)\<lparr>r2 := n\<rparr>;
                   s5 = set_rSloppy c (r_field s4) s4;
                   s6 = set_xSloppy c (zero_field (xSloppy s5)) s5
               in if ALTRELIABLE (bld c)
                  then (let t1 = s6\<lparr>dinit := uhigh c * (sqrt (r2 s6) + Anorm c * sqrt (norm2 (y_field s6)))\<rparr>;
                            t2 = t1\<lparr>d_err := d_new t1, xnorm := 0, pnorm := 0\<rparr>;
                            t3 = t2\<lparr>d_new := dinit t2\<rparr>
                        in t3\<lparr>r0Norm := sqrt (r2 t3)\<rparr>)
                  else (let t1 = s6\<lparr>rNorm := sqrt (r2 s6)\<rparr>
                        in t1\<lparr>maxrr := rNorm t1, maxrx := rNorm t1, r0Norm := rNorm t1\<rparr>))))"

text \<open>The heavy-quark residual of the new iterate (line 411).\<close>

definition ru_hq_res :: "cg_ctx \<Rightarrow> cg_state \<Rightarrow> cg_state" where
  "ru_hq_res c s =
     (if use_heavy_quark_res c
      then s\<lparr>heavy_quark_res := sqrt (HeavyQuarkResidualNorm_z (hst c) (y_field s) (r_field s))\<rparr>
      else s)"

text \<open>
  The break-out check (lines 413--429). The second component is \<open>True\<close> when the source
  executes \<open>break\<close>.
\<close>

definition ru_break_out_check :: "cg_ctx \<Rightarrow> cg_state \<Rightarrow> cg_state \<times> bool" where
  "ru_break_out_check c s =
     (if sqrt (r2 s) > r0Norm s \<and> updateX s \<noteq> 0
      then (let s1 = s\<lparr>resIncrease := resIncrease s + 1\<rparr>;
                s2 = s1\<lparr>resIncreaseTotal := resIncreaseTotal s1 + 1\<rparr>
            in if resIncrease s2 > maxResIncrease c \<or> resIncreaseTotal s2 > maxResIncreaseTotal c
               then (if use_heavy_quark_res c then (s2\<lparr>L2breakdown := True\<rparr>, False)
                     else (s2, True))
               else (s2, False))
      else (s\<lparr>resIncrease := 0\<rparr>, False))"

text \<open>The heavy-quark restart after an L2 breakdown (lines 430--444).\<close>

definition ru_hq_restart :: "cg_ctx \<Rightarrow> cg_state \<Rightarrow> cg_state \<times> bool" where
  "ru_hq_restart c s =
     (if use_heavy_quark_res c \<and> L2breakdown s
      then (let s1 = s\<lparr>delta := 0, heavy_quark_restart := True\<rparr>
            in if heavy_quark_res s1 > heavy_quark_res_old s1
               then (let s2 = s1\<lparr>hqresIncrease := hqresIncrease s1 + 1\<rparr>
                     in if hqresIncrease s2 > hqmaxresIncrease c then (s2, True) else (s2, False))
               else (s1, False))
      else (s, False))"

text \<open>The new search direction (lines 448--459).\<close>

definition ru_restart_p :: "cg_ctx \<Rightarrow> cg_state \<Rightarrow> cg_state" where
  "ru_restart_p c s =
     (if use_heavy_quark_res c \<and> heavy_quark_restart s
      then s\<lparr>p_field := rSloppy s, heavy_quark_restart := False\<rparr>
      else (let rp = cDotProduct (rSloppy s) (p_field s) / complex_of_real (r2 s);
                s1 = s\<lparr>p_field := caxpy (- rp) (rSloppy s) (p_field s)\<rparr>;
                s2 = s1\<lparr>beta := r2 s1 / r2_old s1\<rparr>
            in s2\<lparr>p_field := xpay (rSloppy s2) (beta s2) (p_field s2)\<rparr>))"

text \<open>The end of the branch (lines 461--464).\<close>

definition ru_finish :: "cg_state \<Rightarrow> cg_state" where
  "ru_finish s =
     s\<lparr>steps_since_reliable := 0, rUpdate := rUpdate s + 1,
       heavy_quark_res_old := heavy_quark_res s\<rparr>"

definition reliable_update :: "cg_ctx \<Rightarrow> cg_state \<Rightarrow> cg_state \<times> bool" where
  "reliable_update c s =
     (case ru_break_out_check c (ru_hq_res c (ru_recompute c s)) of
        (s1, True) \<Rightarrow> (s1, True)
      | (s1, False) \<Rightarrow>
          (case ru_hq_restart c s1 of
             (s2, True) \<Rightarrow> (s2, True)
           | (s2, False) \<Rightarrow> (ru_finish (ru_restart_p c s2), False)))"

text \<open>The end of an iteration that did not break (lines 467--481).\<close>

definition iteration_end :: "cg_ctx \<Rightarrow> cg_state \<Rightarrow> cg_state" where
  "iteration_end c s0 =
     (let s1 = s0\<lparr>breakdown := False, k_iter := k_iter s0 + 1\<rparr>;
          s2 = s1\<lparr>converged :=
                    convergence (hst c) (r2 s1) (heavy_quark_res s1) (stop c) (param_tol_hq (prm c))\<rparr>
      in if use_heavy_quark_res c
         then (let L2done = (L2breakdown s2 \<or>
                             convergenceL2 (hst c) (r2 s2) (heavy_quark_res s2) (stop c)
                               (param_tol_hq (prm c)));
                   HQdone = ((steps_since_reliable s2 = 0 \<and> param_delta (prm c) > 0) \<and>
                             convergenceHQ (hst c) (r2 s2) (heavy_quark_res s2) (stop c)
                               (param_tol_hq (prm c)))
               in s2\<lparr>converged := (L2done \<and> HQdone)\<rparr>)
         else s2)"

text \<open>
  The body of the loop. The second component is \<open>True\<close> when the iteration left the loop
  by \<open>break\<close>.
\<close>

definition cg_iteration :: "cg_ctx \<Rightarrow> cg_state \<Rightarrow> cg_state \<times> bool" where
  "cg_iteration c s =
     (let s1 = force_update c (reliable_conditions c (cg_reduction c s))
      in if \<not> (updateR s1 \<noteq> 0 \<or> updateX s1 \<noteq> 0)
         then (iteration_end c (no_update c s1), False)
         else (case reliable_update c s1 of
                 (s2, True) \<Rightarrow> (s2, True)
               | (s2, False) \<Rightarrow> (iteration_end c s2, False)))"

subsection \<open>The loop, the preamble and the epilogue of \<open>CG::operator()\<close>\<close>

lemma k_iter_set [simp]:
  "k_iter (set_rSloppy c v s) = k_iter s" "k_iter (set_r c v s) = k_iter s"
  "k_iter (set_xSloppy c v s) = k_iter s" "k_iter (set_x c v s) = k_iter s"
  by (simp_all add: set_rSloppy_def set_r_def set_xSloppy_def set_x_def)

lemma k_iter_cg_reduction [simp]: "k_iter (cg_reduction c s) = k_iter s"
  by (simp add: cg_reduction_def cg_reduction_plain_def cg_reduction_pipeline_def Let_def
      split: prod.splits)

lemma k_iter_reliable_conditions [simp]: "k_iter (reliable_conditions c s) = k_iter s"
  by (simp add: reliable_conditions_def Let_def)

lemma k_iter_force_update [simp]: "k_iter (force_update c s) = k_iter s"
  by (simp add: force_update_def Let_def)

lemma k_iter_no_update [simp]: "k_iter (no_update c s) = k_iter s"
  by (simp add: no_update_def Let_def split: prod.splits)

lemma k_iter_ru_recompute [simp]: "k_iter (ru_recompute c s) = k_iter s"
  by (simp add: ru_recompute_def Let_def split: prod.splits)

lemma k_iter_ru_hq_res [simp]: "k_iter (ru_hq_res c s) = k_iter s"
  by (simp add: ru_hq_res_def)

lemma k_iter_ru_break_out_check [simp]: "k_iter (fst (ru_break_out_check c s)) = k_iter s"
  by (simp add: ru_break_out_check_def Let_def)

lemma k_iter_ru_hq_restart [simp]: "k_iter (fst (ru_hq_restart c s)) = k_iter s"
  by (simp add: ru_hq_restart_def Let_def)

lemma k_iter_ru_restart_p [simp]: "k_iter (ru_restart_p c s) = k_iter s"
  by (simp add: ru_restart_p_def Let_def)

lemma k_iter_reliable_update [simp]: "k_iter (fst (reliable_update c s)) = k_iter s"
proof -
  obtain s1 b1 where 1: "ru_break_out_check c (ru_hq_res c (ru_recompute c s)) = (s1, b1)"
    by (cases "ru_break_out_check c (ru_hq_res c (ru_recompute c s))")
  obtain s2 b2 where 2: "ru_hq_restart c s1 = (s2, b2)"
    by (cases "ru_hq_restart c s1")
  have k1: "k_iter s1 = k_iter s"
    using k_iter_ru_break_out_check [of c "ru_hq_res c (ru_recompute c s)"] 1 by simp
  have k2: "k_iter s2 = k_iter s1"
    using k_iter_ru_hq_restart [of c s1] 2 by simp
  show ?thesis
    by (simp add: reliable_update_def 1 2 k1 k2 ru_finish_def split: bool.splits)
qed

lemma k_iter_iteration_end [simp]: "k_iter (iteration_end c s) = k_iter s + 1"
  by (simp add: iteration_end_def Let_def)

lemma k_iter_cg_iteration:
  assumes "cg_iteration c s = (s', False)"
  shows "k_iter s' = k_iter s + 1"
proof -
  define s1 where "s1 = force_update c (reliable_conditions c (cg_reduction c s))"
  have k1: "k_iter s1 = k_iter s" by (simp add: s1_def)
  show ?thesis
  proof (cases "updateR s1 \<noteq> 0 \<or> updateX s1 \<noteq> 0")
    case False
    with assms have "s' = iteration_end c (no_update c s1)"
      by (simp add: cg_iteration_def s1_def [symmetric])
    then show ?thesis by (simp add: k1)
  next
    case True
    obtain s2 b2 where r: "reliable_update c s1 = (s2, b2)"
      by (cases "reliable_update c s1")
    from True r assms have "b2 = False" and "s' = iteration_end c s2"
      by (auto simp: cg_iteration_def s1_def [symmetric] split: bool.splits)
    moreover have "k_iter s2 = k_iter s1"
      using k_iter_reliable_update [of c s1] r by simp
    ultimately show ?thesis by (simp add: k1)
  qed
qed

text \<open>
  \<open>while (!converged && k < param.maxiter)\<close>. An iteration that does not break adds one to
  \<open>k\<close>, so the loop ends after at most \<open>maxiter - k\<close> iterations.
\<close>

function cg_loop :: "cg_ctx \<Rightarrow> cg_state \<Rightarrow> cg_state" where
  "cg_loop c s =
     (if \<not> converged s \<and> k_iter s < param_maxiter (prm c)
      then (case cg_iteration c s of
              (s', True) \<Rightarrow> s'
            | (s', False) \<Rightarrow> cg_loop c s')
      else s)"
  by pat_completeness auto
termination
  apply (relation "measure (\<lambda>(c, s). nat (param_maxiter (prm c) - k_iter s))")
   apply simp
  apply (auto dest!: k_iter_cg_iteration [OF sym])
  done

declare cg_loop.simps [simp del]

text \<open>
  The unit roundoff of a precision: \<open>std::numeric_limits<double>::epsilon()/2\<close> for 8 bytes,
  \<open>std::numeric_limits<float>::epsilon()/2\<close> for 4 bytes, \<open>pow(2., -13)\<close> otherwise.
\<close>

definition unit_roundoff :: "int \<Rightarrow> real" where
  "unit_roundoff prec = (if prec = 8 then 1 / 2 ^ 53 else if prec = 4 then 1 / 2 ^ 24 else 1 / 2 ^ 13)"

text \<open>
  The preamble after the two early exits (lines 116--276): the initial residual, the
  replacement of a zero \<open>b2\<close>, the aliasing of the sloppy fields and the initial values of
  the loop variables. \<open>xprec\<close> is \<open>x.Precision()\<close>.
\<close>

definition cg_init :: "build \<Rightarrow> host \<Rightarrow> SolverParam \<Rightarrow> int \<Rightarrow> field \<Rightarrow> field \<Rightarrow> cg_ctx \<times> cg_state" where
  "cg_init bc h pm xprec x b =
     (let b2a = norm2 b;
          Anorm' = (if ALTRELIABLE bc then sqrt (norm2 (mat h b) / b2a) else 0)
      in (case xmyNorm b (mat h x) of
            (r, r2a) \<Rightarrow>
              (let b2b = (if b2a = 0 then r2a else b2a);
                   rs = (param_precision_sloppy pm = xprec);
                   xs = (param_precision_sloppy pm = xprec \<or> \<not> param_use_sloppy_partial_accumulator pm);
                   use_hq = (param_residual_type pm AND QUDA_HEAVY_QUARK_RESIDUAL bc \<noteq> 0);
                   hq = (if use_hq then sqrt (HeavyQuarkResidualNorm_z h x r) else 0);
                   mri = (if use_hq then 0 else param_max_res_increase pm);
                   c = \<lparr>bld = bc, hst = h, prm = pm, b_field = b, b2 = b2b,
                        stop = stopping (param_tol pm) b2b (param_residual_type pm),
                        u_sloppy = unit_roundoff (param_precision_sloppy pm),
                        uhigh = unit_roundoff (param_precision pm),
                        deps = sqrt (unit_roundoff (param_precision_sloppy pm)),
                        Anorm = Anorm', xNorm = 0,
                        use_heavy_quark_res = use_hq,
                        heavy_quark_check = param_heavy_quark_check pm,
                        maxResIncrease = mri,
                        maxResIncreaseTotal = param_max_res_increase_total pm,
                        hqmaxresIncrease = mri + 1,
                        x_is_xSloppy = xs, r_is_rSloppy = rs\<rparr>;
                   di = (if ALTRELIABLE bc then uhigh c * (sqrt r2a + Anorm c * xNorm c) else 0);
                   s = \<lparr>x_field = x,
                        y_field = (if xs then zero_field (zero_field b) else x),
                        r_field = r, rSloppy = r,
                        xSloppy = (if xs then x else zero_field x),
                        p_field = r, Ap = zero_field x,
                        r2 = r2a, r2_old = 0, pAp = 0, alpha = 0, beta = 0, sigma = 0,
                        rNorm = sqrt r2a, r0Norm = sqrt r2a, maxrx = sqrt r2a, maxrr = sqrt r2a,
                        delta = param_delta pm,
                        heavy_quark_res = hq, heavy_quark_res_old = hq,
                        d_err = di, d_new = 0, dinit = di, xnorm = 0, pnorm = 0, ppnorm = 0,
                        k_iter = 0, rUpdate = 0, resIncrease = 0, resIncreaseTotal = 0,
                        hqresIncrease = 0, steps_since_reliable = 1, updateX = 0, updateR = 0,
                        L2breakdown = False, heavy_quark_restart = False, breakdown = False,
                        converged = convergence h r2a hq (stop c) (param_tol_hq pm)\<rparr>
               in (c, s))))"

text \<open>The epilogue (lines 484--512): the solution and the reported metrics.\<close>

definition cg_epilogue :: "cg_ctx \<Rightarrow> cg_state \<Rightarrow> field \<times> SolverParam" where
  "cg_epilogue c s0 =
     (let s1 = set_x c (xSloppy s0) s0;
          s2 = set_x c (xpy (y_field s1) (x_field s1)) s1;
          pm1 = (prm c)\<lparr>param_iter := param_iter (prm c) + k_iter s2\<rparr>
      in if param_compute_true_res pm1
         then (case xmyNorm (b_field c) (mat (hst c) (x_field s2)) of
                 (r', n) \<Rightarrow>
                   (x_field s2,
                    pm1\<lparr>param_true_res := sqrt (n / b2 c),
                        param_true_res_hq := sqrt (HeavyQuarkResidualNorm_z (hst c) (x_field s2) r')\<rparr>))
         else (x_field s2, pm1))"

text \<open>
  \<open>CG::operator()(x, b)\<close>: the new \<open>x\<close> and the updated \<open>param\<close>, or the fatal error.
  \<open>loc\<close> is the value of \<open>Location(x, b)\<close>.
\<close>

definition CG_operator ::
  "build \<Rightarrow> host \<Rightarrow> SolverParam \<Rightarrow> QudaFieldLocation \<Rightarrow> int \<Rightarrow> field \<Rightarrow> field
     \<Rightarrow> quda_error + field \<times> SolverParam" where
  "CG_operator bc h pm loc xprec x b =
     (if loc \<noteq> QUDA_CUDA_FIELD_LOCATION then Inl Not_supported
      else if norm2 b = 0 \<and> param_compute_null_vector pm = QUDA_COMPUTE_NULL_VECTOR_NO
        then Inr (b, pm\<lparr>param_true_res := 0, param_true_res_hq := 0\<rparr>)
      else (case cg_init bc h pm xprec x b of
              (c, s) \<Rightarrow> Inr (cg_epilogue c (cg_loop c s))))"

subsection \<open>The block solver: reliable-update test, residual norms, preamble\<close>

text \<open>
  \<open>CG::block_reliable\<close>. The first three arguments are passed by reference: the result is
  the returned \<open>updateR\<close> with the new \<open>rNorm\<close>, \<open>maxrx\<close> and \<open>maxrr\<close>.
\<close>

definition block_reliable :: "real \<Rightarrow> real \<Rightarrow> real \<Rightarrow> real \<Rightarrow> real \<Rightarrow> int \<times> real \<times> real \<times> real" where
  "block_reliable rn0 mx0 mr0 rr dl =
     (let rn = sqrt rr;
          mx = (if rn > mx0 then rn else mx0);
          mr = (if rn > mr0 then rn else mr0);
          updR = (if rn < dl * mr then 1 else 0)
      in (updR, rn, mx, mr))"

text \<open>
  An \<open>nsrc \<times> nsrc\<close> Eigen matrix is a function of the row and the column index; the loops
  of the source stay below \<open>nsrc\<close>. \<open>matrix_product\<close> is Eigen's \<open>operator*\<close>.
\<close>

type_synonym matrix = "nat \<Rightarrow> nat \<Rightarrow> complex"

definition matrix_product :: "nat \<Rightarrow> matrix \<Rightarrow> matrix \<Rightarrow> matrix" where
  "matrix_product nsrc A B = (\<lambda>i j. \<Sum>l\<leftarrow>[0..<nsrc]. A i l * B l j)"

text \<open>
  Step 24 of \<open>solve_n\<close> (lines 1174--1191). \<open>residual_diag\<close> is the value the inner loop
  leaves in \<open>H(j,j)\<close>; \<open>residual_column\<close> is one pass of the outer loop over the triple
  \<open>(H, r2avg, r2)\<close>; \<open>block_residuals\<close> is the loop with its initial values. The literal
  \<open>1e30\<close> is \<open>10 ^ 30\<close>.
\<close>

definition residual_diag :: "nat \<Rightarrow> matrix \<Rightarrow> nat \<Rightarrow> complex" where
  "residual_diag nsrc C j = fold (\<lambda>i h. h + C i j * cnj (C i j)) [1..<nsrc] (C 0 j * cnj (C 0 j))"

definition residual_column :: "build \<Rightarrow> nat \<Rightarrow> matrix \<Rightarrow> nat \<Rightarrow> matrix \<times> real \<times> real \<Rightarrow> matrix \<times> real \<times> real" where
  "residual_column bc nsrc C j st =
     (case st of
        (H, avg, rr) \<Rightarrow>
          (let H1 = H(j := (H j)(j := residual_diag nsrc C j));
               avg1 = avg + Re (H1 j j);
               rr1 = (if BLOCKSOLVER_RELIABLE_POLICY_MIN bc
                      then (if rr > Re (H1 j j) then Re (H1 j j) else rr)
                      else (if rr < Re (H1 j j) then Re (H1 j j) else rr))
           in (H1, avg1, rr1)))"

definition block_residuals :: "build \<Rightarrow> nat \<Rightarrow> matrix \<Rightarrow> matrix \<Rightarrow> matrix \<times> real \<times> real" where
  "block_residuals bc nsrc C H =
     fold (residual_column bc nsrc C) [0..<nsrc]
       (H, 0, if BLOCKSOLVER_RELIABLE_POLICY_MIN bc then 10 ^ 30 else 0)"

text \<open>
  Steps 22--24 and the test of line 1196: \<open>C_old = C\<close>, \<open>C = S * C\<close>, the residual norms of
  the new \<open>C\<close> and the call of \<open>block_reliable\<close> on the aggregate. The result is the new
  \<open>C\<close>, the new \<open>H\<close>, \<open>r2avg\<close>, and what \<open>block_reliable\<close> returns.
\<close>

definition block_residual_test ::
  "build \<Rightarrow> nat \<Rightarrow> matrix \<Rightarrow> matrix \<Rightarrow> matrix \<Rightarrow> real \<Rightarrow> real \<Rightarrow> real \<Rightarrow> real
     \<Rightarrow> matrix \<times> matrix \<times> real \<times> int \<times> real \<times> real \<times> real" where
  "block_residual_test bc nsrc S C H rn0 mx0 mr0 dl =
     (let C1 = matrix_product nsrc S C
      in (case block_residuals bc nsrc C1 H of
            (H1, avg, rr) \<Rightarrow> (C1, H1, avg, block_reliable rn0 mx0 mr0 rr dl)))"

text \<open>Step 29 (lines 1450--1454): every column has to pass the convergence test.\<close>

definition block_allconverged :: "host \<Rightarrow> nat \<Rightarrow> matrix \<Rightarrow> (nat \<Rightarrow> real) \<Rightarrow> real \<Rightarrow> bool" where
  "block_allconverged h nsrc H stp tolhq =
     fold (\<lambda>i a. a \<and> convergence h (Re (H i i)) 0 (stp i) tolhq) [0..<nsrc] True"

text \<open>
  The preamble of \<open>solve_n\<close> up to the last fatal check before the loop (lines 697--914).
  \<open>source_norms\<close> is the loop over the components of \<open>b\<close> (a composite field is the function
  from the component index to the component); it stops at the first zero source.
\<close>

fun source_norms ::
  "(nat \<Rightarrow> field) \<Rightarrow> nat list \<Rightarrow> (nat \<Rightarrow> real) \<times> real \<Rightarrow> quda_error + (nat \<Rightarrow> real) \<times> real" where
  "source_norms b [] acc = Inr acc"
| "source_norms b (i # is) (b2v, b2avg) =
     (let n = norm2 (b i)
      in if n = 0 then Inl Zero_field_source_block
         else source_norms b is (b2v(i := n), b2avg + n))"

definition solve_n_preamble ::
  "build \<Rightarrow> SolverParam \<Rightarrow> nat \<Rightarrow> QudaFieldLocation \<Rightarrow> (nat \<Rightarrow> field)
     \<Rightarrow> quda_error + (nat \<Rightarrow> real) \<times> real" where
  "solve_n_preamble bc pm nsrc loc b =
     (if loc \<noteq> QUDA_CUDA_FIELD_LOCATION then Inl Not_supported
      else (case source_norms b [0..<nsrc] (\<lambda>i. 0, 0) of
              Inl e \<Rightarrow> Inl e
            | Inr (b2v, b2avg) \<Rightarrow>
                if param_residual_type pm AND QUDA_HEAVY_QUARK_RESIDUAL bc \<noteq> 0
                then Inl Heavy_quark_not_supported_in_block
                else Inr (b2v, b2avg / real nsrc)))"

text \<open>
  \<open>solve_n<nsrc>\<close>: the preamble, then the iterations and the epilogue, which are a
  parameter (they get the source norms of the preamble).
\<close>

definition solve_n ::
  "build \<Rightarrow> SolverParam \<Rightarrow> ((nat \<Rightarrow> real) \<times> real \<Rightarrow> 'res) \<Rightarrow> nat \<Rightarrow> QudaFieldLocation
     \<Rightarrow> (nat \<Rightarrow> field) \<Rightarrow> quda_error + 'res" where
  "solve_n bc pm iterations nsrc loc b =
     (case solve_n_preamble bc pm nsrc loc b of
        Inl e \<Rightarrow> Inl e
      | Inr norms \<Rightarrow> Inr (iterations norms))"

subsection \<open>The dispatcher \<open>CG::solve\<close>\<close>

text \<open>
  \<open>solve_dispatch\<close> is the body of \<open>CG::solve\<close> up to the call it makes: the template
  argument of the instance of \<open>solve_n\<close> the switch selects, or the fatal error raised
  instead. \<open>solve\<close> then runs the selected instance on \<open>param.num_src\<close>.
\<close>

definition solve_dispatch :: "build \<Rightarrow> int \<Rightarrow> quda_error + nat" where
  "solve_dispatch bc num_src =
     (if \<not> BLOCKSOLVER bc then Inl Blocksolver_not_built
      else if num_src > QUDA_MAX_BLOCK_SRC bc
        then Inl (Num_src_exceeds_max num_src (QUDA_MAX_BLOCK_SRC bc))
      else if num_src = 1 then Inr 1
      else if num_src = 2 then Inr 2
      else if num_src = 3 then Inr 3
      else if num_src = 4 then Inr 4
      else if num_src = 5 then Inr 5
      else if num_src = 6 then Inr 6
      else if num_src = 7 then Inr 7
      else if num_src = 8 then Inr 8
      else if num_src = 9 then Inr 9
      else if num_src = 10 then Inr 10
      else if num_src = 11 then Inr 11
      else if num_src = 12 then Inr 12
      else if num_src = 13 then Inr 13
      else if num_src = 14 then Inr 14
      else if num_src = 15 then Inr 15
      else if num_src = 16 then Inr 16
      else if num_src = 24 then Inr 24
      else if num_src = 32 then Inr 32
      else if num_src = 48 then Inr 48
      else if num_src = 64 then Inr 64
      else Inl (Dimension_not_supported num_src))"

definition solve ::
  "build \<Rightarrow> SolverParam \<Rightarrow> (nat \<Rightarrow> (nat \<Rightarrow> real) \<times> real \<Rightarrow> 'res) \<Rightarrow> QudaFieldLocation
     \<Rightarrow> (nat \<Rightarrow> field) \<Rightarrow> quda_error + 'res" where
  "solve bc pm iterations loc b =
     (case solve_dispatch bc (param_num_src pm) of
        Inl e \<Rightarrow> Inl e
      | Inr n \<Rightarrow> solve_n bc pm (iterations n) n loc b)"

definition supported_num_src :: "int set" where
  "supported_num_src = {1..16} \<union> {24, 32, 48, 64}"

text \<open>
  A build used to evaluate the model: the block solver compiled in, the classical
  reliable-update policy, the max policy of the block solver (the file leaves
  \<open>BLOCKSOLVER_RELIABLE_POLICY_MIN\<close> commented out), and the values the headers of the
  distribution give the two constants.
\<close>

definition default_build :: build where
  "default_build =
     \<lparr>BLOCKSOLVER = True, ALTRELIABLE = False, BLOCKSOLVER_RELIABLE_POLICY_MIN = False,
      QUDA_MAX_BLOCK_SRC = 64, QUDA_HEAVY_QUARK_RESIDUAL = 4\<rparr>"

text \<open>
  Parameters and a host used to evaluate the model: tolerance \<open>1/10\<close>, \<open>delta = 1/2\<close>, both
  precisions double, only the L2 residual requested; the operators are the identity, the
  heavy-quark residual of \<open>(x, r)\<close> is \<open>\<parallel>r\<parallel>\<^sup>2\<close>, and the convergence predicates compare the L2
  residual with \<open>stop\<close> and the heavy-quark residual with \<open>tol_hq\<close>.
\<close>

definition default_param :: SolverParam where
  "default_param =
     \<lparr>param_tol = 1 / 10, param_tol_hq = 1 / 10, param_residual_type = 1, param_maxiter = 100,
      param_delta = 1 / 2, param_max_res_increase = 5, param_max_res_increase_total = 10,
      param_precision = 8, param_precision_sloppy = 8,
      param_use_sloppy_partial_accumulator = False, param_pipeline = False,
      param_compute_true_res = True,
      param_compute_null_vector = QUDA_COMPUTE_NULL_VECTOR_NO, param_num_src = 1,
      param_heavy_quark_check = 1, param_true_res = 7, param_true_res_hq = 7, param_iter = 0\<rparr>"

definition identity_host :: host where
  "identity_host =
     \<lparr>mat = (\<lambda>v. v), matSloppy = (\<lambda>v. v),
      HeavyQuarkResidualNorm_z = (\<lambda>x r. norm2 r),
      xpyHeavyQuarkResidualNorm_z = (\<lambda>x y r. norm2 r),
      tripleCGUpdate = (\<lambda>a b Ap x r p. (axpy a p x, axpy (- a) Ap r, xpay (axpy (- a) Ap r) b p)),
      convergence = (\<lambda>rr hq st tq. rr \<le> st),
      convergenceL2 = (\<lambda>rr hq st tq. rr \<le> st),
      convergenceHQ = (\<lambda>rr hq st tq. hq \<le> tq)\<rparr>"

lemma solve_dispatch_Inr:
  assumes "BLOCKSOLVER bc" and "64 \<le> QUDA_MAX_BLOCK_SRC bc" and "num_src \<in> supported_num_src"
  shows "solve_dispatch bc num_src = Inr (nat num_src)"
proof -
  from assms(3) consider "1 \<le> num_src \<and> num_src \<le> 16" | "num_src \<in> {24, 32, 48, 64}"
    by (auto simp: supported_num_src_def)
  then show ?thesis
  proof cases
    case 1
    with assms(1,2) show ?thesis
      unfolding solve_dispatch_def by (simp split: if_splits) arith
  next
    case 2
    with assms(1,2) show ?thesis
      unfolding solve_dispatch_def by auto
  qed
qed

lemma solve_dispatch_Inl:
  assumes "num_src \<notin> supported_num_src"
  shows "solve_dispatch bc num_src = Inl Blocksolver_not_built \<or>
         solve_dispatch bc num_src = Inl (Num_src_exceeds_max num_src (QUDA_MAX_BLOCK_SRC bc)) \<or>
         solve_dispatch bc num_src = Inl (Dimension_not_supported num_src)"
proof -
  from assms have "num_src < 1 \<or> 16 < num_src" and "num_src \<notin> {24, 32, 48, 64}"
    by (auto simp: supported_num_src_def)
  then show ?thesis
    unfolding solve_dispatch_def by auto
qed

text \<open>
  Claim C8. The dispatcher \<open>CG::solve\<close> selects an instance \<open>solve_n<n>\<close> exactly for
  \<open>num_src\<close> in \<open>{1..16, 24, 32, 48, 64}\<close>, and the instance it runs is the one for
  \<open>n = num_src\<close>; for every other \<open>num_src\<close> it raises a fatal error and its result does not
  depend on any solver instance. The selection is stated for a build with the block solver
  compiled in and with \<open>QUDA_MAX_BLOCK_SRC\<close>, a constant of a header outside the sources,
  at least 64; the fatal error outside the set holds for every build.
\<close>

theorem solve_dispatches_supported_num_src:
  fixes iterations :: "nat \<Rightarrow> (nat \<Rightarrow> real) \<times> real \<Rightarrow> 'res"
  shows "(param_num_src pm \<notin> supported_num_src \<longrightarrow>
            (\<exists>e. solve_dispatch bc (param_num_src pm) = Inl e \<and>
                 solve bc pm iterations loc b = Inl e)) \<and>
         (BLOCKSOLVER bc \<and> 64 \<le> QUDA_MAX_BLOCK_SRC bc \<longrightarrow>
            ((\<exists>n. solve_dispatch bc (param_num_src pm) = Inr n) \<longleftrightarrow>
               param_num_src pm \<in> supported_num_src) \<and>
            (param_num_src pm \<in> supported_num_src \<longrightarrow>
               solve_dispatch bc (param_num_src pm) = Inr (nat (param_num_src pm)) \<and>
               solve bc pm iterations loc b =
                 solve_n bc pm (iterations (nat (param_num_src pm))) (nat (param_num_src pm)) loc b))"
proof (intro conjI impI)
  assume out: "param_num_src pm \<notin> supported_num_src"
  from solve_dispatch_Inl [OF out, of bc]
  show "\<exists>e. solve_dispatch bc (param_num_src pm) = Inl e \<and> solve bc pm iterations loc b = Inl e"
    by (auto simp: solve_def)
next
  assume bld: "BLOCKSOLVER bc \<and> 64 \<le> QUDA_MAX_BLOCK_SRC bc"
  show "(\<exists>n. solve_dispatch bc (param_num_src pm) = Inr n) \<longleftrightarrow>
          param_num_src pm \<in> supported_num_src"
  proof
    assume "\<exists>n. solve_dispatch bc (param_num_src pm) = Inr n"
    then obtain n where n: "solve_dispatch bc (param_num_src pm) = Inr n" ..
    show "param_num_src pm \<in> supported_num_src"
    proof (rule ccontr)
      assume "param_num_src pm \<notin> supported_num_src"
      from solve_dispatch_Inl [OF this, of bc] n show False by auto
    qed
  next
    assume "param_num_src pm \<in> supported_num_src"
    then show "\<exists>n. solve_dispatch bc (param_num_src pm) = Inr n"
      using solve_dispatch_Inr [of bc "param_num_src pm"] bld by auto
  qed
next
  assume "BLOCKSOLVER bc \<and> 64 \<le> QUDA_MAX_BLOCK_SRC bc"
    and "param_num_src pm \<in> supported_num_src"
  then show "solve_dispatch bc (param_num_src pm) = Inr (nat (param_num_src pm))"
    using solve_dispatch_Inr by blast
next
  assume "BLOCKSOLVER bc \<and> 64 \<le> QUDA_MAX_BLOCK_SRC bc"
    and "param_num_src pm \<in> supported_num_src"
  then show "solve bc pm iterations loc b =
      solve_n bc pm (iterations (nat (param_num_src pm))) (nat (param_num_src pm)) loc b"
    using solve_dispatch_Inr [of bc "param_num_src pm"] by (simp add: solve_def)
qed

theorem solve_dispatches_supported_num_src_witness:
  "solve_dispatch default_build (param_num_src (default_param\<lparr>param_num_src := 24\<rparr>)) = Inr 24 \<and>
   solve default_build (default_param\<lparr>param_num_src := 24\<rparr>) (\<lambda>n norms. n)
       QUDA_CUDA_FIELD_LOCATION (\<lambda>i. [1]) =
     solve_n default_build (default_param\<lparr>param_num_src := 24\<rparr>) (\<lambda>norms. 24) 24
       QUDA_CUDA_FIELD_LOCATION (\<lambda>i. [1]) \<and>
   solve_dispatch default_build 17 = Inl (Dimension_not_supported 17) \<and>
   solve_dispatch default_build 65 = Inl (Num_src_exceeds_max 65 64)"
  using solve_dispatches_supported_num_src
          [of "default_param\<lparr>param_num_src := 24\<rparr>" default_build "\<lambda>n norms. n"
              QUDA_CUDA_FIELD_LOCATION "\<lambda>i. [1]"]
  by (simp add: supported_num_src_def default_build_def solve_dispatch_def)

section \<open>Properties of the single right-hand-side solver\<close>

text \<open>What the preamble stores in the context.\<close>

lemma cg_init_ctx:
  "bld (fst (cg_init bc h pm xprec x b)) = bc"
  "hst (fst (cg_init bc h pm xprec x b)) = h"
  "prm (fst (cg_init bc h pm xprec x b)) = pm"
  "b_field (fst (cg_init bc h pm xprec x b)) = b"
  "use_heavy_quark_res (fst (cg_init bc h pm xprec x b)) =
     (param_residual_type pm AND QUDA_HEAVY_QUARK_RESIDUAL bc \<noteq> 0)"
  "maxResIncrease (fst (cg_init bc h pm xprec x b)) =
     (if param_residual_type pm AND QUDA_HEAVY_QUARK_RESIDUAL bc \<noteq> 0 then 0
      else param_max_res_increase pm)"
  "maxResIncreaseTotal (fst (cg_init bc h pm xprec x b)) = param_max_res_increase_total pm"
  "hqmaxresIncrease (fst (cg_init bc h pm xprec x b)) =
     (if param_residual_type pm AND QUDA_HEAVY_QUARK_RESIDUAL bc \<noteq> 0 then 0
      else param_max_res_increase pm) + 1"
  "x_is_xSloppy (fst (cg_init bc h pm xprec x b)) =
     (param_precision_sloppy pm = xprec \<or> \<not> param_use_sloppy_partial_accumulator pm)"
  "r_is_rSloppy (fst (cg_init bc h pm xprec x b)) = (param_precision_sloppy pm = xprec)"
  by (simp_all add: cg_init_def Let_def split: prod.splits)

text \<open>
  A write to a field, shared or not, changes no scalar of the state, and the name written
  holds the value written.
\<close>

lemma set_rSloppy_simps [simp]:
  "rSloppy (set_rSloppy c v s) = v" "Ap (set_rSloppy c v s) = Ap s"
  "alpha (set_rSloppy c v s) = alpha s" "pAp (set_rSloppy c v s) = pAp s"
  "r2_old (set_rSloppy c v s) = r2_old s"
  by (simp_all add: set_rSloppy_def)

lemma set_field_frame [simp]:
  "r2 (set_rSloppy c v s) = r2 s" "r2 (set_r c v s) = r2 s"
  "r2 (set_xSloppy c v s) = r2 s" "r2 (set_x c v s) = r2 s"
  "r0Norm (set_rSloppy c v s) = r0Norm s" "r0Norm (set_r c v s) = r0Norm s"
  "r0Norm (set_xSloppy c v s) = r0Norm s" "r0Norm (set_x c v s) = r0Norm s"
  "resIncrease (set_rSloppy c v s) = resIncrease s" "resIncrease (set_r c v s) = resIncrease s"
  "resIncrease (set_xSloppy c v s) = resIncrease s" "resIncrease (set_x c v s) = resIncrease s"
  "resIncreaseTotal (set_rSloppy c v s) = resIncreaseTotal s"
  "resIncreaseTotal (set_r c v s) = resIncreaseTotal s"
  "resIncreaseTotal (set_xSloppy c v s) = resIncreaseTotal s"
  "resIncreaseTotal (set_x c v s) = resIncreaseTotal s"
  "hqresIncrease (set_rSloppy c v s) = hqresIncrease s" "hqresIncrease (set_r c v s) = hqresIncrease s"
  "hqresIncrease (set_xSloppy c v s) = hqresIncrease s" "hqresIncrease (set_x c v s) = hqresIncrease s"
  "heavy_quark_res_old (set_rSloppy c v s) = heavy_quark_res_old s"
  "heavy_quark_res_old (set_r c v s) = heavy_quark_res_old s"
  "heavy_quark_res_old (set_xSloppy c v s) = heavy_quark_res_old s"
  "heavy_quark_res_old (set_x c v s) = heavy_quark_res_old s"
  "L2breakdown (set_rSloppy c v s) = L2breakdown s" "L2breakdown (set_r c v s) = L2breakdown s"
  "L2breakdown (set_xSloppy c v s) = L2breakdown s" "L2breakdown (set_x c v s) = L2breakdown s"
  "updateX (set_rSloppy c v s) = updateX s" "updateX (set_r c v s) = updateX s"
  "updateX (set_xSloppy c v s) = updateX s" "updateX (set_x c v s) = updateX s"
  by (simp_all add: set_rSloppy_def set_r_def set_xSloppy_def set_x_def)

lemma set_field_values [simp]:
  "xSloppy (set_xSloppy c v s) = v" "x_field (set_x c v s) = v"
  "r_field (set_r c v s) = v"
  "y_field (set_xSloppy c v s) = y_field s" "y_field (set_x c v s) = y_field s"
  "y_field (set_r c v s) = y_field s" "y_field (set_rSloppy c v s) = y_field s"
  by (simp_all add: set_rSloppy_def set_r_def set_xSloppy_def set_x_def)

lemma set_field_tracked [simp]:
  "maxrx (set_rSloppy c v s) = maxrx s" "maxrx (set_r c v s) = maxrx s"
  "maxrx (set_xSloppy c v s) = maxrx s" "maxrx (set_x c v s) = maxrx s"
  "maxrr (set_rSloppy c v s) = maxrr s" "maxrr (set_r c v s) = maxrr s"
  "maxrr (set_xSloppy c v s) = maxrr s" "maxrr (set_x c v s) = maxrr s"
  by (simp_all add: set_rSloppy_def set_r_def set_xSloppy_def set_x_def)

text \<open>
  A context and a loop state used to evaluate the model: the context of a solve of
  \<open>1 \<cdot> x = 1\<close> from \<open>x = 0\<close> with the default parameters, and a state with residual
  \<open>r = 1\<close> and search direction \<open>p = -1\<close>.
\<close>

definition default_ctx :: cg_ctx where
  "default_ctx = fst (cg_init default_build identity_host default_param 8 [0] [1])"

definition idle_state :: cg_state where
  "idle_state =
     \<lparr>x_field = [0], y_field = [0], r_field = [1], rSloppy = [1], xSloppy = [0],
      p_field = [- 1], Ap = [0],
      r2 = 1, r2_old = 0, pAp = 0, alpha = 0, beta = 0, sigma = 0,
      rNorm = 1, r0Norm = 1, maxrx = 1, maxrr = 1, delta = 1 / 2,
      heavy_quark_res = 0, heavy_quark_res_old = 0,
      d_err = 0, d_new = 0, dinit = 0, xnorm = 0, pnorm = 0, ppnorm = 0,
      k_iter = 0, rUpdate = 0, resIncrease = 0, resIncreaseTotal = 0,
      hqresIncrease = 0, steps_since_reliable = 1, updateX = 0, updateR = 0,
      L2breakdown = False, heavy_quark_restart = False, breakdown = False,
      converged = False\<rparr>"

lemma idle_state_sel:
  "x_field idle_state = [0]" "y_field idle_state = [0]" "r_field idle_state = [1]"
  "rSloppy idle_state = [1]" "xSloppy idle_state = [0]" "p_field idle_state = [- 1]"
  "Ap idle_state = [0]" "r2 idle_state = 1" "r2_old idle_state = 0" "pAp idle_state = 0"
  "alpha idle_state = 0" "beta idle_state = 0" "sigma idle_state = 0" "rNorm idle_state = 1"
  "r0Norm idle_state = 1" "maxrx idle_state = 1" "maxrr idle_state = 1"
  "delta idle_state = 1 / 2" "heavy_quark_res idle_state = 0"
  "heavy_quark_res_old idle_state = 0" "d_err idle_state = 0" "d_new idle_state = 0"
  "dinit idle_state = 0" "xnorm idle_state = 0" "pnorm idle_state = 0" "ppnorm idle_state = 0"
  "k_iter idle_state = 0" "rUpdate idle_state = 0" "resIncrease idle_state = 0"
  "resIncreaseTotal idle_state = 0" "hqresIncrease idle_state = 0"
  "steps_since_reliable idle_state = 1" "updateX idle_state = 0" "updateR idle_state = 0"
  "L2breakdown idle_state = False" "heavy_quark_restart idle_state = False"
  "breakdown idle_state = False" "converged idle_state = False"
  by (simp_all add: idle_state_def)

lemma default_ctx_simps:
  "bld default_ctx = default_build" "hst default_ctx = identity_host"
  "prm default_ctx = default_param" "b_field default_ctx = [1]"
  "\<not> use_heavy_quark_res default_ctx" "x_is_xSloppy default_ctx" "r_is_rSloppy default_ctx"
  "maxResIncrease default_ctx = 5" "maxResIncreaseTotal default_ctx = 10"
  by (simp_all add: default_ctx_def cg_init_ctx default_param_def default_build_def)

text \<open>A squared norm is never negative.\<close>

lemma norm2_nonneg: "0 \<le> norm2 a"
  by (auto simp: norm2_def intro!: sum_list_nonneg)

subsection \<open>Zero right-hand side\<close>

text \<open>
  Claim C7. For fields on the device (the one location the solver accepts), if
  \<open>\<parallel>b\<parallel>\<^sup>2 = 0\<close> and \<open>compute_null_vector\<close> is off, \<open>CG::operator()\<close> returns at once: \<open>x\<close> is
  overwritten by \<open>b\<close>, \<open>param.true_res\<close> and \<open>param.true_res_hq\<close> are 0, and nothing else of
  \<open>param\<close> changes, so \<open>param.iter\<close> counts no iteration. The result is a value, not a
  fatal error, and it is the same for every operator and every initial guess: no operator
  is applied.
\<close>

theorem zero_source_returns_b:
  assumes "loc = QUDA_CUDA_FIELD_LOCATION"
    and "norm2 b = 0"
    and "param_compute_null_vector pm = QUDA_COMPUTE_NULL_VECTOR_NO"
  shows "CG_operator bc h pm loc xprec x b =
           Inr (b, pm\<lparr>param_true_res := 0, param_true_res_hq := 0\<rparr>) \<and>
         (\<forall>h' x'. CG_operator bc h' pm loc xprec x' b = CG_operator bc h pm loc xprec x b) \<and>
         (\<forall>x' pm'. CG_operator bc h pm loc xprec x b = Inr (x', pm') \<longrightarrow>
            x' = b \<and> param_true_res pm' = 0 \<and> param_iter pm' = param_iter pm)"
  using assms by (simp add: CG_operator_def)

theorem zero_source_returns_b_witness:
  "norm2 [0, 0] = 0 \<and>
   CG_operator default_build identity_host default_param QUDA_CUDA_FIELD_LOCATION 8 [1, 2] [0, 0] =
     Inr ([0, 0], default_param\<lparr>param_true_res := 0, param_true_res_hq := 0\<rparr>)"
  using zero_source_returns_b
          [of QUDA_CUDA_FIELD_LOCATION "[0, 0]" default_param default_build identity_host 8 "[1, 2]"]
  by (simp add: norm2_def default_param_def)

text \<open>
  Claim C9. For fields on the device, if \<open>\<parallel>b\<parallel>\<^sup>2 = 0\<close> and \<open>compute_null_vector\<close> is on, the
  solver does not return early: it runs its loop in the context of the preamble, where
  \<open>b2\<close> is the initial residual norm \<open>\<parallel>b - A x\<^sub>0\<parallel>\<^sup>2\<close>, and the threshold is
  \<open>stop = stopping(tol, b2) = tol\<^sup>2 \<cdot> \<parallel>b - A x\<^sub>0\<parallel>\<^sup>2\<close>.
\<close>

theorem null_vector_threshold_from_initial_residual:
  assumes "loc = QUDA_CUDA_FIELD_LOCATION"
    and "norm2 b = 0"
    and "param_compute_null_vector pm \<noteq> QUDA_COMPUTE_NULL_VECTOR_NO"
  shows "\<exists>c s. cg_init bc h pm xprec x b = (c, s) \<and>
           CG_operator bc h pm loc xprec x b = Inr (cg_epilogue c (cg_loop c s)) \<and>
           b2 c = norm2 (xmy b (mat h x)) \<and>
           stop c = stopping (param_tol pm) (norm2 (xmy b (mat h x))) (param_residual_type pm) \<and>
           stop c = (param_tol pm)\<^sup>2 * norm2 (xmy b (mat h x))"
  using assms
  by (simp add: CG_operator_def cg_init_def xmyNorm_def Let_def stopping_def power2_eq_square)

theorem null_vector_threshold_from_initial_residual_witness:
  "norm2 [0] = 0 \<and>
   b2 (fst (cg_init default_build identity_host
              (default_param\<lparr>param_compute_null_vector := QUDA_COMPUTE_NULL_VECTOR_YES\<rparr>) 8 [3] [0])) = 9 \<and>
   stop (fst (cg_init default_build identity_host
              (default_param\<lparr>param_compute_null_vector := QUDA_COMPUTE_NULL_VECTOR_YES\<rparr>) 8 [3] [0])) = 9 / 100"
  using null_vector_threshold_from_initial_residual
          [of QUDA_CUDA_FIELD_LOCATION "[0]"
              "default_param\<lparr>param_compute_null_vector := QUDA_COMPUTE_NULL_VECTOR_YES\<rparr>"
              default_build identity_host 8 "[3]"]
  by (auto simp: norm2_def xmy_def default_param_def identity_host_def power2_eq_square)

subsection \<open>The classical reliable-update conditions\<close>

text \<open>
  Claim C5. In the classical policy (\<open>ALTRELIABLE\<close> not defined) the conditions of lines
  325--343 leave, for every state \<open>s\<close> they are applied to (in an iteration, the state after
  the reductions): \<open>rNorm = \<surd>r2\<close>; \<open>maxrx\<close> and \<open>maxrr\<close> raised to at least \<open>rNorm\<close>;
  \<open>updateX = (rNorm < delta \<cdot> r0Norm) \<and> (r0Norm \<le> maxrx)\<close> and
  \<open>updateR = ((rNorm < delta \<cdot> maxrr) \<and> (r0Norm \<le> maxrr)) \<or> updateX\<close>, as the integers 1 and 0.
\<close>

theorem classical_reliable_conditions:
  assumes "\<not> ALTRELIABLE (bld c)"
  shows "rNorm (reliable_conditions c s) = sqrt (r2 s) \<and>
         maxrx (reliable_conditions c s) = max (maxrx s) (sqrt (r2 s)) \<and>
         maxrr (reliable_conditions c s) = max (maxrr s) (sqrt (r2 s)) \<and>
         rNorm (reliable_conditions c s) \<le> maxrx (reliable_conditions c s) \<and>
         rNorm (reliable_conditions c s) \<le> maxrr (reliable_conditions c s) \<and>
         r0Norm (reliable_conditions c s) = r0Norm s \<and>
         delta (reliable_conditions c s) = delta s \<and>
         updateX (reliable_conditions c s) =
           (if rNorm (reliable_conditions c s) < delta s * r0Norm s \<and>
               r0Norm s \<le> maxrx (reliable_conditions c s) then 1 else 0) \<and>
         updateR (reliable_conditions c s) =
           (if (rNorm (reliable_conditions c s) < delta s * maxrr (reliable_conditions c s) \<and>
                r0Norm s \<le> maxrr (reliable_conditions c s)) \<or>
               updateX (reliable_conditions c s) = 1 then 1 else 0)"
  using assms by (simp add: reliable_conditions_def Let_def max_def)

theorem classical_reliable_conditions_witness:
  "\<not> ALTRELIABLE (bld default_ctx) \<and>
   rNorm (reliable_conditions default_ctx (idle_state\<lparr>r2 := 4, r0Norm := 16, maxrr := 16\<rparr>)) = 2 \<and>
   maxrx (reliable_conditions default_ctx (idle_state\<lparr>r2 := 4, r0Norm := 16, maxrr := 16\<rparr>)) = 2 \<and>
   maxrr (reliable_conditions default_ctx (idle_state\<lparr>r2 := 4, r0Norm := 16, maxrr := 16\<rparr>)) = 16 \<and>
   updateX (reliable_conditions default_ctx (idle_state\<lparr>r2 := 4, r0Norm := 16, maxrr := 16\<rparr>)) = 0 \<and>
   updateR (reliable_conditions default_ctx (idle_state\<lparr>r2 := 4, r0Norm := 16, maxrr := 16\<rparr>)) = 1"
  using classical_reliable_conditions
          [of default_ctx "idle_state\<lparr>r2 := 4, r0Norm := 16, maxrr := 16\<rparr>"]
  by (simp add: default_ctx_def cg_init_ctx default_build_def idle_state_def)

text \<open>The value of \<open>updateR\<close> in terms of the state before the conditions.\<close>

lemma reliable_conditions_updateR:
  assumes "\<not> ALTRELIABLE (bld c)"
  shows "updateR (reliable_conditions c s) =
           (if (sqrt (r2 s) < delta s * max (maxrr s) (sqrt (r2 s)) \<and>
                r0Norm s \<le> max (maxrr s) (sqrt (r2 s))) \<or>
               (sqrt (r2 s) < delta s * r0Norm s \<and> r0Norm s \<le> max (maxrx s) (sqrt (r2 s)))
            then 1 else 0)"
  using assms by (simp add: reliable_conditions_def Let_def max_def)

subsection \<open>The numerator of the alternative \<open>\<beta>\<close>\<close>

text \<open>
  A solve with the symmetric positive-definite operator \<open>((1, 2), (2, 5))\<close> and a loop
  state with residual \<open>r = (1, 0)\<close>, \<open>r2 = 1\<close> and search direction \<open>p = (-1, 0)\<close>.
\<close>

definition spd_host :: host where
  "spd_host =
     identity_host
       \<lparr>mat := (\<lambda>v. [v ! 0 + 2 * v ! 1, 2 * v ! 0 + 5 * v ! 1]),
        matSloppy := (\<lambda>v. [v ! 0 + 2 * v ! 1, 2 * v ! 0 + 5 * v ! 1])\<rparr>"

definition spd_ctx :: cg_ctx where
  "spd_ctx = fst (cg_init default_build spd_host default_param 8 [0, 0] [1, 0])"

definition spd_state :: cg_state where
  "spd_state = idle_state\<lparr>x_field := [0, 0], y_field := [0, 0], xSloppy := [0, 0],
     r_field := [1, 0], rSloppy := [1, 0], p_field := [- 1, 0], Ap := [0, 0], r2 := 1\<rparr>"

lemma spd_ctx_simps:
  "bld spd_ctx = default_build" "hst spd_ctx = spd_host" "prm spd_ctx = default_param"
  "r_is_rSloppy spd_ctx"
  by (simp_all add: spd_ctx_def cg_init_ctx default_param_def)

lemma spd_kernels:
  "matSloppy spd_host [- 1, 0] = [- 1, - 2]"
  "reDotProduct [- 1, 0] [- 1, - 2] = 1"
  "axpyCGNorm (- 1) [- 1, - 2] [1, 0] = ([2, 2], Complex 8 6)"
  by (simp_all add: spd_host_def identity_host_def reDotProduct_def cDotProduct_def
      axpyCGNorm_def axpy_def caxpy_def norm2_def xmy_def Let_def)

lemma spd_reduction:
  "rSloppy (cg_reduction spd_ctx spd_state) = [2, 2]"
  "sigma (cg_reduction spd_ctx spd_state) = 6"
  by (simp_all add: cg_reduction_def cg_reduction_plain_def spd_ctx_simps spd_kernels
      spd_state_def idle_state_sel set_rSloppy_def Let_def default_param_def default_build_def)

text \<open>
  Claim C2, as stated, fails: \<open>sigma\<close> is the cross term whenever that is not negative,
  also when it is the smaller of the two. In the state above \<open>Ap = (-1, -2)\<close>, \<open>pAp = 1\<close>,
  \<open>\<alpha> = 1\<close> and \<open>r_new = (2, 2)\<close>: the cross term \<open>\<langle>r_new, r_new - r_old\<rangle>\<close> is 6, the new
  squared norm is 8, and \<open>sigma\<close> is 6, not the maximum 8.
\<close>

theorem sigma_is_not_the_maximum:
  "sigma (cg_reduction spd_ctx spd_state) = 6 \<and>
   reDotProduct (rSloppy (cg_reduction spd_ctx spd_state))
     (xmy (rSloppy (cg_reduction spd_ctx spd_state)) (rSloppy spd_state)) = 6 \<and>
   norm2 (rSloppy (cg_reduction spd_ctx spd_state)) = 8 \<and>
   \<not> param_pipeline (prm spd_ctx)"
  unfolding spd_reduction
  by (simp add: spd_ctx_simps default_param_def spd_state_def
      reDotProduct_def cDotProduct_def norm2_def xmy_def)

text \<open>
  Claim C2, amended. In the path without \<open>param.pipeline\<close>, after \<open>Ap = A p\<close>,
  \<open>pAp = \<langle>p, Ap\<rangle>\<close>, \<open>\<alpha> = r2 / pAp\<close> and the fused update \<open>r \<leftarrow> r - \<alpha> Ap\<close> with
  \<open>r2 = \<langle>r_new, r_new\<rangle>\<close>, the scalar \<open>sigma\<close> is the cross term \<open>\<langle>r_new, r_new - r_old\<rangle>\<close>
  when that is not negative and the new squared residual norm otherwise.
\<close>

theorem sigma_alternative_beta:
  assumes "\<not> param_pipeline (prm c)"
  shows "Ap (cg_reduction c s) = matSloppy (hst c) (p_field s) \<and>
         pAp (cg_reduction c s) = reDotProduct (p_field s) (Ap (cg_reduction c s)) \<and>
         alpha (cg_reduction c s) = r2 s / pAp (cg_reduction c s) \<and>
         rSloppy (cg_reduction c s) =
           axpy (- alpha (cg_reduction c s)) (Ap (cg_reduction c s)) (rSloppy s) \<and>
         r2 (cg_reduction c s) = norm2 (rSloppy (cg_reduction c s)) \<and>
         sigma (cg_reduction c s) =
           (if 0 \<le> reDotProduct (rSloppy (cg_reduction c s))
                      (xmy (rSloppy (cg_reduction c s)) (rSloppy s))
            then reDotProduct (rSloppy (cg_reduction c s))
                   (xmy (rSloppy (cg_reduction c s)) (rSloppy s))
            else norm2 (rSloppy (cg_reduction c s)))"
  using assms
  by (simp add: cg_reduction_def cg_reduction_plain_def Let_def axpyCGNorm_def
      cDotProductNormA_def reDotProduct_def)

theorem sigma_alternative_beta_witness:
  "\<not> param_pipeline (prm spd_ctx) \<and>
   rSloppy (cg_reduction spd_ctx spd_state) = [2, 2] \<and>
   sigma (cg_reduction spd_ctx spd_state) = 6"
  using sigma_alternative_beta [of spd_ctx spd_state]
  by (simp add: spd_reduction spd_ctx_simps default_param_def)

subsection \<open>The residual-increase check of a reliable update\<close>

text \<open>
  What the phases of a reliable update keep, and the norm it records: as the source
  stands, \<open>r0Norm\<close> is assigned the new \<open>\<surd>r2\<close> (lines 400 and 406) before the break-out
  check of line 414 reads it, so inside \<open>reliable_update\<close> the check finds no increase.
\<close>

lemma ru_recompute_r0Norm:
  "r0Norm (ru_recompute c s) = sqrt (r2 (ru_recompute c s))"
  by (simp add: ru_recompute_def Let_def case_prod_beta)

lemma ru_recompute_counters:
  "resIncrease (ru_recompute c s) = resIncrease s"
  "resIncreaseTotal (ru_recompute c s) = resIncreaseTotal s"
  "L2breakdown (ru_recompute c s) = L2breakdown s"
  "updateX (ru_recompute c s) = updateX s"
  "hqresIncrease (ru_recompute c s) = hqresIncrease s"
  "heavy_quark_res_old (ru_recompute c s) = heavy_quark_res_old s"
  by (simp_all add: ru_recompute_def Let_def case_prod_beta)

lemma ru_hq_res_frame:
  "r0Norm (ru_hq_res c s) = r0Norm s" "r2 (ru_hq_res c s) = r2 s"
  "resIncrease (ru_hq_res c s) = resIncrease s"
  "resIncreaseTotal (ru_hq_res c s) = resIncreaseTotal s"
  "L2breakdown (ru_hq_res c s) = L2breakdown s"
  "updateX (ru_hq_res c s) = updateX s"
  by (simp_all add: ru_hq_res_def)

lemma ru_break_out_check_no_increase:
  assumes "\<not> (sqrt (r2 s) > r0Norm s \<and> updateX s \<noteq> 0)"
  shows "ru_break_out_check c s = (s\<lparr>resIncrease := 0\<rparr>, False)"
  using assms by (auto simp: ru_break_out_check_def)

lemma ru_hq_restart_counters:
  "resIncrease (fst (ru_hq_restart c s)) = resIncrease s"
  "resIncreaseTotal (fst (ru_hq_restart c s)) = resIncreaseTotal s"
  "L2breakdown (fst (ru_hq_restart c s)) = L2breakdown s"
  by (simp_all add: ru_hq_restart_def Let_def)

lemma ru_restart_p_counters:
  "resIncrease (ru_restart_p c s) = resIncrease s"
  "resIncreaseTotal (ru_restart_p c s) = resIncreaseTotal s"
  "L2breakdown (ru_restart_p c s) = L2breakdown s"
  by (simp_all add: ru_restart_p_def Let_def)

lemma ru_finish_counters:
  "resIncrease (ru_finish s) = resIncrease s"
  "resIncreaseTotal (ru_finish s) = resIncreaseTotal s"
  "L2breakdown (ru_finish s) = L2breakdown s"
  by (simp_all add: ru_finish_def)

lemma reliable_update_keeps_counters:
  "resIncrease (fst (reliable_update c s)) = 0 \<and>
   resIncreaseTotal (fst (reliable_update c s)) = resIncreaseTotal s \<and>
   L2breakdown (fst (reliable_update c s)) = L2breakdown s"
proof -
  define s1 where "s1 = ru_hq_res c (ru_recompute c s)"
  have "\<not> (sqrt (r2 s1) > r0Norm s1 \<and> updateX s1 \<noteq> 0)"
    by (simp add: s1_def ru_hq_res_frame ru_recompute_r0Norm)
  then have chk: "ru_break_out_check c s1 = (s1\<lparr>resIncrease := 0\<rparr>, False)"
    by (rule ru_break_out_check_no_increase)
  obtain s2 b2 where 2: "ru_hq_restart c (s1\<lparr>resIncrease := 0\<rparr>) = (s2, b2)"
    by (cases "ru_hq_restart c (s1\<lparr>resIncrease := 0\<rparr>)")
  have s2: "resIncrease s2 = 0" "resIncreaseTotal s2 = resIncreaseTotal s"
    "L2breakdown s2 = L2breakdown s"
    using ru_hq_restart_counters [of c "s1\<lparr>resIncrease := 0\<rparr>"] 2
    by (simp_all add: s1_def ru_hq_res_frame ru_recompute_counters)
  show ?thesis
    by (cases b2)
       (simp_all add: reliable_update_def s1_def [symmetric] chk 2 s2 ru_finish_counters
          ru_restart_p_counters)
qed

lemma ru_recompute_r2:
  "r2 (ru_recompute c s) =
     norm2 (xmy (b_field c)
              (mat (hst c) (xpy (axpy (alpha s) (p_field s) (xSloppy s)) (y_field s))))"
  by (simp add: ru_recompute_def Let_def case_prod_beta xmyNorm_def)

text \<open>
  Lines 431--444 do nothing while \<open>L2breakdown\<close> is false, and the check above never sets
  it: a reliable update in such a state does not leave the loop.
\<close>

lemma ru_hq_res_classical: "\<not> use_heavy_quark_res c \<Longrightarrow> ru_hq_res c s = s"
  by (simp add: ru_hq_res_def)

lemma ru_hq_restart_idle:
  "\<not> (use_heavy_quark_res c \<and> L2breakdown s) \<Longrightarrow> ru_hq_restart c s = (s, False)"
  by (auto simp: ru_hq_restart_def)

lemma reliable_update_without_breakdown:
  assumes "\<not> L2breakdown s"
  shows "reliable_update c s =
           (ru_finish (ru_restart_p c ((ru_hq_res c (ru_recompute c s))\<lparr>resIncrease := 0\<rparr>)), False)"
proof -
  define s1 where "s1 = ru_hq_res c (ru_recompute c s)"
  have "\<not> (sqrt (r2 s1) > r0Norm s1 \<and> updateX s1 \<noteq> 0)"
    by (simp add: s1_def ru_hq_res_frame ru_recompute_r0Norm)
  then have chk: "ru_break_out_check c s1 = (s1\<lparr>resIncrease := 0\<rparr>, False)"
    by (rule ru_break_out_check_no_increase)
  have "\<not> L2breakdown (s1\<lparr>resIncrease := 0\<rparr>)"
    using assms by (simp add: s1_def ru_hq_res_frame ru_recompute_counters)
  then have "ru_hq_restart c (s1\<lparr>resIncrease := 0\<rparr>) = (s1\<lparr>resIncrease := 0\<rparr>, False)"
    by (simp add: ru_hq_restart_idle)
  then show ?thesis
    by (simp add: reliable_update_def s1_def [symmetric] chk)
qed

text \<open>
  The counters through an iteration and through the loop: whatever the operators, the
  parameters and the fields, \<open>resIncreaseTotal\<close> and \<open>L2breakdown\<close> keep the values the
  preamble gave them (0 and false), and no iteration leaves the loop by \<open>break\<close>.
\<close>

lemma counters_cg_reduction_plain:
  "resIncrease (cg_reduction_plain c s) = resIncrease s"
  "resIncreaseTotal (cg_reduction_plain c s) = resIncreaseTotal s"
  "L2breakdown (cg_reduction_plain c s) = L2breakdown s"
  by (cases "ALTRELIABLE (bld c)";
      simp add: cg_reduction_plain_def cDotProductNormA_def axpyCGNorm_def Let_def)+

lemma counters_cg_reduction_pipeline:
  "resIncrease (cg_reduction_pipeline c s) = resIncrease s"
  "resIncreaseTotal (cg_reduction_pipeline c s) = resIncreaseTotal s"
  "L2breakdown (cg_reduction_pipeline c s) = L2breakdown s"
  by (cases "ALTRELIABLE (bld c)";
      simp add: cg_reduction_pipeline_def quadrupleCGReduction_def tripleCGReduction_def
        axpyNorm_def Let_def)+

lemma counters_before_update:
  "resIncrease (force_update c (reliable_conditions c (cg_reduction c s))) = resIncrease s"
  "resIncreaseTotal (force_update c (reliable_conditions c (cg_reduction c s))) = resIncreaseTotal s"
  "L2breakdown (force_update c (reliable_conditions c (cg_reduction c s))) = L2breakdown s"
  by (simp_all add: force_update_def reliable_conditions_def cg_reduction_def
      counters_cg_reduction_plain counters_cg_reduction_pipeline Let_def)

lemma counters_no_update:
  "resIncrease (no_update c s) = resIncrease s"
  "resIncreaseTotal (no_update c s) = resIncreaseTotal s"
  "L2breakdown (no_update c s) = L2breakdown s"
  by (simp_all add: no_update_def Let_def case_prod_beta set_r_def)

lemma counters_iteration_end:
  "resIncrease (iteration_end c s) = resIncrease s"
  "resIncreaseTotal (iteration_end c s) = resIncreaseTotal s"
  "L2breakdown (iteration_end c s) = L2breakdown s"
  by (simp_all add: iteration_end_def Let_def)

lemma cg_iteration_never_counts:
  "resIncreaseTotal (fst (cg_iteration c s)) = resIncreaseTotal s \<and>
   L2breakdown (fst (cg_iteration c s)) = L2breakdown s \<and>
   (\<not> L2breakdown s \<longrightarrow> \<not> snd (cg_iteration c s))"
proof -
  define sf where "sf = force_update c (reliable_conditions c (cg_reduction c s))"
  have fr: "resIncreaseTotal sf = resIncreaseTotal s" "L2breakdown sf = L2breakdown s"
    by (simp_all add: sf_def counters_before_update)
  show ?thesis
  proof (cases "updateR sf \<noteq> 0 \<or> updateX sf \<noteq> 0")
    case False
    then have "cg_iteration c s = (iteration_end c (no_update c sf), False)"
      by (simp add: cg_iteration_def sf_def [symmetric])
    then show ?thesis
      by (simp add: counters_iteration_end counters_no_update fr)
  next
    case True
    obtain s2 b2 where r: "reliable_update c sf = (s2, b2)"
      by (cases "reliable_update c sf")
    from reliable_update_keeps_counters [of c sf] r
    have k: "resIncreaseTotal s2 = resIncreaseTotal s" "L2breakdown s2 = L2breakdown s"
      by (simp_all add: fr)
    have nb: "\<not> b2" if "\<not> L2breakdown s"
      using reliable_update_without_breakdown [of sf c] that r by (simp add: fr)
    from True r have "cg_iteration c s = (if b2 then (s2, True) else (iteration_end c s2, False))"
      by (auto simp: cg_iteration_def sf_def [symmetric])
    with k nb show ?thesis
      by (simp add: counters_iteration_end)
  qed
qed

lemma cg_loop_never_counts:
  "resIncreaseTotal (cg_loop c s) = resIncreaseTotal s \<and> L2breakdown (cg_loop c s) = L2breakdown s"
proof (induction c s rule: cg_loop.induct)
  case (1 c s)
  show ?case
  proof (cases "\<not> converged s \<and> k_iter s < param_maxiter (prm c)")
    case False
    then have "cg_loop c s = s"
      by (subst cg_loop.simps) auto
    then show ?thesis by simp
  next
    case True
    obtain s' br where it: "cg_iteration c s = (s', br)"
      by (cases "cg_iteration c s")
    from cg_iteration_never_counts [of c s] it
    have k: "resIncreaseTotal s' = resIncreaseTotal s" "L2breakdown s' = L2breakdown s"
      by simp_all
    show ?thesis
    proof (cases br)
      case True
      with \<open>\<not> converged s \<and> k_iter s < param_maxiter (prm c)\<close> it
      have "cg_loop c s = s'"
        by (subst cg_loop.simps) simp
      with k show ?thesis by simp
    next
      case False
      then have stay: "br = False" by simp
      from False \<open>\<not> converged s \<and> k_iter s < param_maxiter (prm c)\<close> it
      have "cg_loop c s = cg_loop c s'"
        by (subst cg_loop.simps) simp
      moreover
      from 1 [OF \<open>\<not> converged s \<and> k_iter s < param_maxiter (prm c)\<close> it [symmetric] stay]
      have "resIncreaseTotal (cg_loop c s') = resIncreaseTotal s' \<and>
            L2breakdown (cg_loop c s') = L2breakdown s'" .
      ultimately show ?thesis using k by simp
    qed
  qed
qed

lemma cg_iteration_with_update:
  assumes "updateR (force_update c (reliable_conditions c (cg_reduction c s))) \<noteq> 0 \<or>
           updateX (force_update c (reliable_conditions c (cg_reduction c s))) \<noteq> 0"
    and "\<not> L2breakdown s"
  shows "cg_iteration c s =
           (iteration_end c (ru_finish (ru_restart_p c
              ((ru_hq_res c (ru_recompute c
                  (force_update c (reliable_conditions c (cg_reduction c s)))))
               \<lparr>resIncrease := 0\<rparr>))), False)"
proof -
  define sf where "sf = force_update c (reliable_conditions c (cg_reduction c s))"
  have "\<not> L2breakdown sf"
    using assms(2) by (simp add: sf_def counters_before_update)
  from reliable_update_without_breakdown [OF this, of c] assms(1) show ?thesis
    by (auto simp: cg_iteration_def sf_def [symmetric] Let_def)
qed

text \<open>
  A solve in which the sloppy operator is a poor copy of the reference operator: one
  site, \<open>b = (1)\<close>, \<open>x\<^sub>0 = (0)\<close>, the reference operator multiplies by 3 and the sloppy
  operator by 1; the default parameters with \<open>max_res_increase = 0\<close> and \<open>maxiter = 2\<close>.
  \<open>drift_start\<close> is the state the preamble hands to the loop, \<open>drift_mid\<close> the state of
  the first iteration when it decides on the reliable update, \<open>drift_first\<close> and
  \<open>drift_second\<close> the states after the first and the second iteration.
\<close>

definition drift_host :: host where
  "drift_host = identity_host\<lparr>mat := map (\<lambda>z. 3 * z)\<rparr>"

definition drift_param :: SolverParam where
  "drift_param = default_param\<lparr>param_max_res_increase := 0, param_maxiter := 2\<rparr>"

definition drift_ctx :: cg_ctx where
  "drift_ctx = fst (cg_init default_build drift_host drift_param 8 [0] [1])"

definition drift_start :: cg_state where
  "drift_start = snd (cg_init default_build drift_host drift_param 8 [0] [1])"

definition drift_mid :: cg_state where
  "drift_mid = force_update drift_ctx (reliable_conditions drift_ctx
                 (cg_reduction drift_ctx drift_start))"

definition drift_first :: cg_state where
  "drift_first = fst (cg_iteration drift_ctx drift_start)"

definition drift_mid2 :: cg_state where
  "drift_mid2 = force_update drift_ctx (reliable_conditions drift_ctx
                  (cg_reduction drift_ctx drift_first))"

definition drift_second :: cg_state where
  "drift_second = fst (cg_iteration drift_ctx drift_first)"

lemma drift_ctx_simps:
  "bld drift_ctx = default_build" "hst drift_ctx = drift_host"
  "prm drift_ctx = drift_param" "b_field drift_ctx = [1]"
  "\<not> use_heavy_quark_res drift_ctx" "x_is_xSloppy drift_ctx" "r_is_rSloppy drift_ctx"
  "maxResIncrease drift_ctx = 0" "maxResIncreaseTotal drift_ctx = 10"
  by (simp_all add: drift_ctx_def cg_init_ctx drift_param_def default_param_def default_build_def)

lemma drift_ctx_stop: "stop drift_ctx = 1 / 100" "b2 drift_ctx = 1"
  by (simp_all add: drift_ctx_def cg_init_def Let_def case_prod_beta xmyNorm_def stopping_def
      norm2_def drift_param_def default_param_def)

lemma drift_start_sel:
  "x_field drift_start = [0]" "y_field drift_start = [0]" "r_field drift_start = [1]"
  "rSloppy drift_start = [1]" "xSloppy drift_start = [0]" "p_field drift_start = [1]"
  "r2 drift_start = 1" "rNorm drift_start = 1"
  "r0Norm drift_start = 1" "maxrx drift_start = 1" "maxrr drift_start = 1"
  "delta drift_start = 1 / 2" "heavy_quark_res drift_start = 0"
  "k_iter drift_start = 0" "rUpdate drift_start = 0" "resIncrease drift_start = 0"
  "resIncreaseTotal drift_start = 0"
  "L2breakdown drift_start = False" "heavy_quark_restart drift_start = False"
  "converged drift_start = False"
  by (simp_all add: drift_start_def cg_init_def Let_def case_prod_beta xmyNorm_def xmy_def
      norm2_def zero_field_def stopping_def drift_host_def identity_host_def drift_param_def
      default_param_def default_build_def)

lemma drift_mid_sel:
  "updateX drift_mid = 1" "updateR drift_mid = 1" "alpha drift_mid = 1"
  "p_field drift_mid = [1]" "xSloppy drift_mid = [0]" "y_field drift_mid = [0]"
  "rSloppy drift_mid = [0]" "r2_old drift_mid = 1" "r0Norm drift_mid = 1"
  "k_iter drift_mid = 0" "rUpdate drift_mid = 0" "heavy_quark_res drift_mid = 0"
  "delta drift_mid = 1 / 2" "L2breakdown drift_mid = False"
  "resIncreaseTotal drift_mid = 0" "heavy_quark_restart drift_mid = False"
  by (simp_all add: drift_mid_def force_update_def reliable_conditions_def cg_reduction_def
      cg_reduction_plain_def drift_ctx_simps drift_ctx_stop drift_param_def default_param_def
      default_build_def drift_host_def identity_host_def drift_start_sel
      reDotProduct_def cDotProduct_def axpyCGNorm_def axpy_def caxpy_def norm2_def xmy_def
      set_rSloppy_def Let_def)

lemma drift_iteration1:
  "cg_iteration drift_ctx drift_start =
     (iteration_end drift_ctx (ru_finish (ru_restart_p drift_ctx
        ((ru_recompute drift_ctx drift_mid)\<lparr>resIncrease := 0\<rparr>))), False)"
  using cg_iteration_with_update [of drift_ctx drift_start]
  by (simp add: drift_mid_def [symmetric] drift_mid_sel drift_start_sel ru_hq_res_classical
      drift_ctx_simps)

lemma drift_recompute1:
  "xSloppy (ru_recompute drift_ctx drift_mid) = [0]"
  "x_field (ru_recompute drift_ctx drift_mid) = [0]"
  "y_field (ru_recompute drift_ctx drift_mid) = [1]"
  "r_field (ru_recompute drift_ctx drift_mid) = [- 2]"
  "rSloppy (ru_recompute drift_ctx drift_mid) = [- 2]"
  "p_field (ru_recompute drift_ctx drift_mid) = [1]"
  "r2 (ru_recompute drift_ctx drift_mid) = 4"
  "r2_old (ru_recompute drift_ctx drift_mid) = 1"
  "rNorm (ru_recompute drift_ctx drift_mid) = 2"
  "r0Norm (ru_recompute drift_ctx drift_mid) = 2"
  "maxrx (ru_recompute drift_ctx drift_mid) = 2"
  "maxrr (ru_recompute drift_ctx drift_mid) = 2"
  "delta (ru_recompute drift_ctx drift_mid) = 1 / 2"
  "heavy_quark_res (ru_recompute drift_ctx drift_mid) = 0"
  "rUpdate (ru_recompute drift_ctx drift_mid) = 0"
  "resIncreaseTotal (ru_recompute drift_ctx drift_mid) = 0"
  "L2breakdown (ru_recompute drift_ctx drift_mid) = False"
  "heavy_quark_restart (ru_recompute drift_ctx drift_mid) = False"
  by (simp_all add: ru_recompute_def Let_def case_prod_beta drift_ctx_simps drift_mid_sel
      drift_host_def identity_host_def default_build_def
      set_xSloppy_def set_x_def set_r_def set_rSloppy_def
      xmyNorm_def xmy_def xpy_def axpy_def caxpy_def norm2_def zero_field_def)

lemma drift_first_sel:
  "xSloppy drift_first = [0]" "x_field drift_first = [0]" "y_field drift_first = [1]"
  "r_field drift_first = [- 2]" "rSloppy drift_first = [- 2]" "p_field drift_first = [- 2]"
  "r2 drift_first = 4" "r0Norm drift_first = 2" "maxrx drift_first = 2" "maxrr drift_first = 2"
  "delta drift_first = 1 / 2" "heavy_quark_res drift_first = 0"
  "k_iter drift_first = 1" "rUpdate drift_first = 1"
  "resIncrease drift_first = 0" "resIncreaseTotal drift_first = 0"
  "L2breakdown drift_first = False" "heavy_quark_restart drift_first = False"
  "converged drift_first = False"
  by (simp_all add: drift_first_def drift_iteration1 iteration_end_def ru_finish_def
      ru_restart_p_def Let_def drift_recompute1 drift_mid_sel drift_ctx_simps drift_ctx_stop
      drift_host_def identity_host_def cDotProduct_def caxpy_def xpay_def)

lemma drift_mid2_sel:
  "updateX drift_mid2 = 1" "updateR drift_mid2 = 1" "alpha drift_mid2 = 1"
  "p_field drift_mid2 = [- 2]" "xSloppy drift_mid2 = [0]" "y_field drift_mid2 = [1]"
  "rSloppy drift_mid2 = [0]" "r2_old drift_mid2 = 4" "r0Norm drift_mid2 = 2"
  "k_iter drift_mid2 = 1" "rUpdate drift_mid2 = 1" "heavy_quark_res drift_mid2 = 0"
  "delta drift_mid2 = 1 / 2" "L2breakdown drift_mid2 = False"
  "resIncreaseTotal drift_mid2 = 0" "heavy_quark_restart drift_mid2 = False"
  by (simp_all add: drift_mid2_def force_update_def reliable_conditions_def cg_reduction_def
      cg_reduction_plain_def drift_ctx_simps drift_ctx_stop drift_param_def default_param_def
      default_build_def drift_host_def identity_host_def drift_first_sel
      reDotProduct_def cDotProduct_def axpyCGNorm_def axpy_def caxpy_def norm2_def xmy_def
      set_rSloppy_def Let_def)

lemma drift_iteration2:
  "cg_iteration drift_ctx drift_first =
     (iteration_end drift_ctx (ru_finish (ru_restart_p drift_ctx
        ((ru_recompute drift_ctx drift_mid2)\<lparr>resIncrease := 0\<rparr>))), False)"
  using cg_iteration_with_update [of drift_ctx drift_first]
  by (simp add: drift_mid2_def [symmetric] drift_mid2_sel drift_first_sel ru_hq_res_classical
      drift_ctx_simps)

lemma drift_recompute2:
  "xSloppy (ru_recompute drift_ctx drift_mid2) = [0]"
  "x_field (ru_recompute drift_ctx drift_mid2) = [0]"
  "y_field (ru_recompute drift_ctx drift_mid2) = [- 1]"
  "r2 (ru_recompute drift_ctx drift_mid2) = 16"
  "r0Norm (ru_recompute drift_ctx drift_mid2) = 4"
  "heavy_quark_res (ru_recompute drift_ctx drift_mid2) = 0"
  "resIncreaseTotal (ru_recompute drift_ctx drift_mid2) = 0"
  by (simp_all add: ru_recompute_def Let_def case_prod_beta drift_ctx_simps drift_mid2_sel
      drift_host_def identity_host_def default_build_def
      set_xSloppy_def set_x_def set_r_def set_rSloppy_def
      xmyNorm_def xmy_def xpy_def axpy_def caxpy_def norm2_def zero_field_def)

lemma drift_second_sel:
  "xSloppy drift_second = [0]" "x_field drift_second = [0]" "y_field drift_second = [- 1]"
  "r2 drift_second = 16" "r0Norm drift_second = 4" "k_iter drift_second = 2"
  "resIncrease drift_second = 0" "resIncreaseTotal drift_second = 0"
  by (simp_all add: drift_second_def drift_iteration2 iteration_end_def ru_finish_def
      ru_restart_p_def Let_def drift_recompute2 drift_mid2_sel drift_ctx_simps drift_ctx_stop
      drift_host_def identity_host_def cDotProduct_def caxpy_def xpay_def)

lemma drift_loop: "cg_loop drift_ctx drift_start = drift_second"
proof -
  have 2: "cg_loop drift_ctx drift_second = drift_second"
    by (subst cg_loop.simps) (simp add: drift_second_sel drift_ctx_simps drift_param_def)
  have 1: "cg_loop drift_ctx drift_first = cg_loop drift_ctx drift_second"
    by (subst cg_loop.simps)
       (simp add: drift_first_sel drift_ctx_simps drift_param_def drift_iteration2
          drift_second_def)
  have 0: "cg_loop drift_ctx drift_start = cg_loop drift_ctx drift_first"
    by (subst cg_loop.simps)
       (simp add: drift_start_sel drift_ctx_simps drift_param_def drift_iteration1
          drift_first_def)
  from 0 1 2 show ?thesis by simp
qed

lemma drift_run:
  "CG_operator default_build drift_host drift_param QUDA_CUDA_FIELD_LOCATION 8 [0] [1] =
     Inr ([- 1], drift_param\<lparr>param_true_res := 4, param_true_res_hq := 4, param_iter := 2\<rparr>)"
proof -
  have init: "cg_init default_build drift_host drift_param 8 [0] [1] = (drift_ctx, drift_start)"
    by (simp add: drift_ctx_def drift_start_def)
  have nz: "norm2 [1] \<noteq> 0"
    by (simp add: norm2_def)
  have ep: "cg_epilogue drift_ctx drift_second =
     ([- 1], drift_param\<lparr>param_true_res := 4, param_true_res_hq := 4, param_iter := 2\<rparr>)"
    by (simp add: cg_epilogue_def Let_def case_prod_beta drift_second_sel drift_ctx_simps
        drift_ctx_stop set_x_def xpy_def xmyNorm_def xmy_def norm2_def drift_host_def
        identity_host_def drift_param_def default_param_def)
  show ?thesis
    by (simp add: CG_operator_def nz init drift_loop ep)
qed

text \<open>
  Claim C1 says that a reliable update whose recomputed norm \<open>\<surd>r2\<close> exceeds the norm
  recorded at the last reliable update adds one to \<open>resIncrease\<close> and to
  \<open>resIncreaseTotal\<close>, and that the solver leaves the loop once
  \<open>resIncrease > max_res_increase\<close>. The code does not do so. In the solve above the first
  iteration takes a reliable update with \<open>updateX = 1\<close>; the recomputed residual has norm
  2, above the norm 1 recorded by the preamble, and \<open>max_res_increase\<close> is 0. Line 406 has
  already stored the new norm in \<open>r0Norm\<close> when line 414 compares the two, so both
  counters stay 0 and the iteration does not break; the second iteration repeats this
  with norm 4, and the solve ends at \<open>maxiter = 2\<close> with \<open>x = (-1)\<close> and a true residual
  of 4, where the claim has it leave the loop in the first iteration.
\<close>

theorem residual_increase_is_not_counted:
  "param_max_res_increase drift_param = 0 \<and>
   r0Norm drift_start = 1 \<and>
   updateX (force_update drift_ctx (reliable_conditions drift_ctx
              (cg_reduction drift_ctx drift_start))) = 1 \<and>
   sqrt (r2 (fst (cg_iteration drift_ctx drift_start))) = 2 \<and>
   resIncrease (fst (cg_iteration drift_ctx drift_start)) = 0 \<and>
   resIncreaseTotal (fst (cg_iteration drift_ctx drift_start)) = 0 \<and>
   \<not> snd (cg_iteration drift_ctx drift_start) \<and>
   sqrt (r2 (fst (cg_iteration drift_ctx (fst (cg_iteration drift_ctx drift_start))))) = 4 \<and>
   resIncreaseTotal (fst (cg_iteration drift_ctx (fst (cg_iteration drift_ctx drift_start)))) = 0 \<and>
   CG_operator default_build drift_host drift_param QUDA_CUDA_FIELD_LOCATION 8 [0] [1] =
     Inr ([- 1], drift_param\<lparr>param_true_res := 4, param_true_res_hq := 4, param_iter := 2\<rparr>)"
proof -
  have p: "param_max_res_increase drift_param = 0"
    by (simp add: drift_param_def default_param_def)
  have r0: "r0Norm drift_start = 1"
    by (simp add: drift_start_sel)
  have u: "updateX (force_update drift_ctx (reliable_conditions drift_ctx
              (cg_reduction drift_ctx drift_start))) = 1"
    by (simp add: drift_mid_def [symmetric] drift_mid_sel)
  have f: "sqrt (r2 (fst (cg_iteration drift_ctx drift_start))) = 2"
    "resIncrease (fst (cg_iteration drift_ctx drift_start)) = 0"
    "resIncreaseTotal (fst (cg_iteration drift_ctx drift_start)) = 0"
    by (simp_all add: drift_first_def [symmetric] drift_first_sel)
  have b: "\<not> snd (cg_iteration drift_ctx drift_start)"
    by (simp add: drift_iteration1)
  have g: "sqrt (r2 (fst (cg_iteration drift_ctx (fst (cg_iteration drift_ctx drift_start))))) = 4"
    "resIncreaseTotal (fst (cg_iteration drift_ctx (fst (cg_iteration drift_ctx drift_start)))) = 0"
    by (simp_all add: drift_first_def [symmetric] drift_second_def [symmetric] drift_second_sel)
  from p r0 u f b g drift_run show ?thesis
    by blast
qed

text \<open>
  The branch the first iteration takes in this solve: both flags are set, so it is the
  reliable update, and the state it leaves has the recomputed norm 2 and no increase
  counted.
\<close>

theorem residual_increase_is_not_counted_witness:
  "updateR drift_mid = 1 \<and> updateX drift_mid = 1 \<and>
   r0Norm drift_start = 1 \<and>
   sqrt (r2 (fst (cg_iteration drift_ctx drift_start))) = 2 \<and>
   resIncrease (fst (cg_iteration drift_ctx drift_start)) = 0 \<and>
   resIncreaseTotal (fst (cg_iteration drift_ctx drift_start)) = 0"
  using residual_increase_is_not_counted
  by (simp add: drift_mid_sel)

subsection \<open>The heavy-quark restart\<close>













section \<open>Properties of the block solver\<close>

subsection \<open>The residual norms of the columns\<close>

text \<open>
  The squared norm of column \<open>j\<close> of \<open>C\<close> in the words of the spec,
  \<open>\<parallel>r\<^sub>j\<parallel>\<^sup>2 = \<Sum>\<^sub>i |C(i,j)|\<^sup>2\<close>, and the build of the file with
  \<open>BLOCKSOLVER_RELIABLE_POLICY_MIN\<close> defined.
\<close>

definition column_norm2 :: "nat \<Rightarrow> matrix \<Rightarrow> nat \<Rightarrow> real" where
  "column_norm2 nsrc C j = (\<Sum>i<nsrc. (cmod (C i j))\<^sup>2)"

definition min_policy_build :: build where
  "min_policy_build = default_build\<lparr>BLOCKSOLVER_RELIABLE_POLICY_MIN := True\<rparr>"

lemma fold_plus_sum_list:
  fixes a :: complex
  shows "fold (\<lambda>i h. h + f i) xs a = a + sum_list (map f xs)"
  by (induction xs arbitrary: a) (simp_all add: add.assoc)

lemma residual_diag_eq:
  assumes "0 < nsrc"
  shows "residual_diag nsrc C j = complex_of_real (column_norm2 nsrc C j)"
proof -
  have sq: "z * cnj z = complex_of_real ((cmod z)\<^sup>2)" for z :: complex
    by (simp add: complex_mult_cnj cmod_power2)
  have "residual_diag nsrc C j
          = C 0 j * cnj (C 0 j) + (\<Sum>i = Suc 0..<nsrc. C i j * cnj (C i j))"
    by (simp add: residual_diag_def fold_plus_sum_list interv_sum_list_conv_sum_set_nat)
  also have "\<dots> = (\<Sum>i = 0..<nsrc. C i j * cnj (C i j))"
    using assms by (simp add: sum.atLeast_Suc_lessThan)
  also have "\<dots> = complex_of_real (\<Sum>i = 0..<nsrc. (cmod (C i j))\<^sup>2)"
    by (simp add: sq)
  finally show ?thesis
    by (simp add: column_norm2_def atLeast0LessThan)
qed

lemma aggregate_step:
  fixes f :: "nat \<Rightarrow> real"
  shows "(if Min (insert k (f ` {..<m})) > f m then f m else Min (insert k (f ` {..<m})))
           = Min (insert k (f ` {..<Suc m}))"
    and "(if Max (insert k (f ` {..<m})) < f m then f m else Max (insert k (f ` {..<m})))
           = Max (insert k (f ` {..<Suc m}))"
proof -
  define Mn where "Mn = Min (insert k (f ` {..<m}))"
  define Mx where "Mx = Max (insert k (f ` {..<m}))"
  have S: "insert k (f ` {..<Suc m}) = insert (f m) (insert k (f ` {..<m}))"
    by (auto simp: lessThan_Suc)
  have "Min (insert (f m) (insert k (f ` {..<m}))) = min (f m) (Min (insert k (f ` {..<m})))"
    by (rule Min_insert) simp_all
  then have "Min (insert k (f ` {..<Suc m})) = min (f m) Mn"
    unfolding S Mn_def .
  then show "(if Min (insert k (f ` {..<m})) > f m then f m else Min (insert k (f ` {..<m})))
           = Min (insert k (f ` {..<Suc m}))"
    unfolding Mn_def [symmetric] by (simp add: min_def)
  have "Max (insert (f m) (insert k (f ` {..<m}))) = max (f m) (Max (insert k (f ` {..<m})))"
    by (rule Max_insert) simp_all
  then have "Max (insert k (f ` {..<Suc m})) = max (f m) Mx"
    unfolding S Mx_def .
  then show "(if Max (insert k (f ` {..<m})) < f m then f m else Max (insert k (f ` {..<m})))
           = Max (insert k (f ` {..<Suc m}))"
    unfolding Mx_def [symmetric] by (simp add: max_def)
qed

lemma residual_columns_upto:
  assumes "0 < nsrc"
  shows "fold (residual_column bc nsrc C) [0..<m] (H, 0, k) =
           ((\<lambda>a b. if a = b \<and> a < m then complex_of_real (column_norm2 nsrc C a) else H a b),
            (\<Sum>j<m. column_norm2 nsrc C j),
            (if BLOCKSOLVER_RELIABLE_POLICY_MIN bc
             then Min (insert k (column_norm2 nsrc C ` {..<m}))
             else Max (insert k (column_norm2 nsrc C ` {..<m}))))"
proof (induction m)
  case 0
  show ?case by simp
next
  case (Suc m)
  define Hm where
    "Hm = (\<lambda>a b. if a = b \<and> a < m then complex_of_real (column_norm2 nsrc C a) else H a b)"
  define Mn where "Mn = Min (insert k (column_norm2 nsrc C ` {..<m}))"
  define Mx where "Mx = Max (insert k (column_norm2 nsrc C ` {..<m}))"
  define v where "v = column_norm2 nsrc C m"
  have H: "Hm(m := (Hm m)(m := complex_of_real v))
           = (\<lambda>a b. if a = b \<and> a < Suc m then complex_of_real (column_norm2 nsrc C a) else H a b)"
    by (auto simp: Hm_def v_def fun_eq_iff less_Suc_eq)
  have mn: "(if Mn > v then v else Mn) = Min (insert k (column_norm2 nsrc C ` {..<Suc m}))"
    unfolding Mn_def v_def by (rule aggregate_step)
  have mx: "(if Mx < v then v else Mx) = Max (insert k (column_norm2 nsrc C ` {..<Suc m}))"
    unfolding Mx_def v_def by (rule aggregate_step)
  have at: "(Hm(m := (Hm m)(m := complex_of_real v))) m m = complex_of_real v"
    by simp
  have step: "residual_column bc nsrc C m
                (Hm, (\<Sum>j<m. column_norm2 nsrc C j),
                 (if BLOCKSOLVER_RELIABLE_POLICY_MIN bc then Mn else Mx))
              = ((\<lambda>a b. if a = b \<and> a < Suc m then complex_of_real (column_norm2 nsrc C a) else H a b),
                 (\<Sum>j<Suc m. column_norm2 nsrc C j),
                 (if BLOCKSOLVER_RELIABLE_POLICY_MIN bc
                  then Min (insert k (column_norm2 nsrc C ` {..<Suc m}))
                  else Max (insert k (column_norm2 nsrc C ` {..<Suc m}))))"
    unfolding residual_column_def residual_diag_eq [OF assms] prod.case Let_def
      v_def [symmetric] at H mn [symmetric] mx [symmetric]
    by (simp add: v_def)
  show ?case
    unfolding upt_Suc_append [OF le0] fold_append o_apply Suc.IH
    unfolding Hm_def [symmetric] Mn_def [symmetric] Mx_def [symmetric]
    by (simp only: fold.simps id_apply o_apply step)
qed


lemma block_allconverged_upto:
  "fold (\<lambda>i a. a \<and> P i) [0..<m] a0 = (a0 \<and> (\<forall>i<m. P i))"
  by (induction m) (auto simp: less_Suc_eq)

lemma aggregate_of_columns:
  fixes f :: "nat \<Rightarrow> real"
  assumes "0 < n"
  shows "Min (insert k (f ` {..<n})) = min k (Min (f ` {..<n}))"
    and "(\<And>j. 0 \<le> f j) \<Longrightarrow> Max (insert 0 (f ` {..<n})) = Max (f ` {..<n})"
proof -
  have ne: "f ` {..<n} \<noteq> {}" and fin: "finite (f ` {..<n})"
    using assms by auto
  show "Min (insert k (f ` {..<n})) = min k (Min (f ` {..<n}))"
    using fin ne by (rule Min_insert)
  assume nonneg: "\<And>j. 0 \<le> f j"
  have "Max (f ` {..<n}) \<in> f ` {..<n}"
    using fin ne by (rule Max_in)
  then have "0 \<le> Max (f ` {..<n})"
    using nonneg by auto
  moreover have "Max (insert 0 (f ` {..<n})) = max 0 (Max (f ` {..<n}))"
    using fin ne by (rule Max_insert)
  ultimately show "Max (insert 0 (f ` {..<n})) = Max (f ` {..<n})"
    by simp
qed

lemma column_norm2_nonneg: "0 \<le> column_norm2 nsrc C j"
  by (simp add: column_norm2_def sum_nonneg)

text \<open>
  What the loop of step 24 computes for \<open>nsrc \<ge> 1\<close>: it leaves in \<open>H(j,j)\<close> the squared norm
  \<open>\<Sum>\<^sub>i |C(i,j)|\<^sup>2\<close> of column \<open>j\<close> of \<open>C\<close>; the aggregate \<open>r2\<close> is the maximum of the column
  norms under the max policy and the smaller of \<open>1e30\<close> and their minimum under the min
  policy. The aggregate of the updated \<open>C = S \<cdot> C\<close> is what \<open>block_reliable\<close> is called with,
  and the convergence test of step 29 reads the diagonal of \<open>H\<close> the loop wrote.
\<close>

lemma block_residual_norms:
  assumes "0 < nsrc"
  shows "(\<forall>j<nsrc. fst (block_residuals bc nsrc C H) j j =
            complex_of_real (\<Sum>i<nsrc. (cmod (C i j))\<^sup>2)) \<and>
         snd (snd (block_residuals bc nsrc C H)) =
           (if BLOCKSOLVER_RELIABLE_POLICY_MIN bc
            then min (10 ^ 30) (Min (column_norm2 nsrc C ` {..<nsrc}))
            else Max (column_norm2 nsrc C ` {..<nsrc})) \<and>
         block_residual_test bc nsrc S C H rn mx mr dl =
           (matrix_product nsrc S C,
            fst (block_residuals bc nsrc (matrix_product nsrc S C) H),
            fst (snd (block_residuals bc nsrc (matrix_product nsrc S C) H)),
            block_reliable rn mx mr
              (if BLOCKSOLVER_RELIABLE_POLICY_MIN bc
               then min (10 ^ 30) (Min (column_norm2 nsrc (matrix_product nsrc S C) ` {..<nsrc}))
               else Max (column_norm2 nsrc (matrix_product nsrc S C) ` {..<nsrc})) dl) \<and>
         block_allconverged h nsrc (fst (block_residuals bc nsrc C H)) stp tq =
           (\<forall>j<nsrc. convergence h (column_norm2 nsrc C j) 0 (stp j) tq)"
proof -
  have agg: "snd (snd (block_residuals bc nsrc D H)) =
           (if BLOCKSOLVER_RELIABLE_POLICY_MIN bc
            then min (10 ^ 30) (Min (column_norm2 nsrc D ` {..<nsrc}))
            else Max (column_norm2 nsrc D ` {..<nsrc}))" for D
    unfolding block_residuals_def
    by (cases "BLOCKSOLVER_RELIABLE_POLICY_MIN bc")
       (simp_all only: residual_columns_upto [OF assms] snd_conv if_True if_False
          aggregate_of_columns(1) [OF assms]
          aggregate_of_columns(2) [OF assms, of "column_norm2 nsrc D", OF column_norm2_nonneg])
  have diag: "fst (block_residuals bc nsrc C H) =
      (\<lambda>a b. if a = b \<and> a < nsrc then complex_of_real (column_norm2 nsrc C a) else H a b)"
    unfolding block_residuals_def by (simp only: residual_columns_upto [OF assms] fst_conv)
  have 1: "\<forall>j<nsrc. fst (block_residuals bc nsrc C H) j j =
            complex_of_real (\<Sum>i<nsrc. (cmod (C i j))\<^sup>2)"
    unfolding diag by (simp add: column_norm2_def)
  have 3: "block_residual_test bc nsrc S C H rn mx mr dl =
           (matrix_product nsrc S C,
            fst (block_residuals bc nsrc (matrix_product nsrc S C) H),
            fst (snd (block_residuals bc nsrc (matrix_product nsrc S C) H)),
            block_reliable rn mx mr
              (if BLOCKSOLVER_RELIABLE_POLICY_MIN bc
               then min (10 ^ 30) (Min (column_norm2 nsrc (matrix_product nsrc S C) ` {..<nsrc}))
               else Max (column_norm2 nsrc (matrix_product nsrc S C) ` {..<nsrc})) dl)"
    unfolding agg [symmetric] block_residual_test_def Let_def
    by (simp add: split_beta)
  have 4: "block_allconverged h nsrc (fst (block_residuals bc nsrc C H)) stp tq =
           (\<forall>j<nsrc. convergence h (column_norm2 nsrc C j) 0 (stp j) tq)"
    unfolding block_allconverged_def block_allconverged_upto diag by simp
  from 1 agg [of C] 3 4 show ?thesis by blast
qed

lemma block_residual_norms_example:
  "snd (snd (block_residuals default_build 2 (\<lambda>i j. if i \<le> j then 1 else 0) (\<lambda>i j. 0))) = 2 \<and>
   snd (snd (block_residuals min_policy_build 2 (\<lambda>i j. if i \<le> j then 1 else 0) (\<lambda>i j. 0))) = 1"
  using block_residual_norms [of 2 default_build "\<lambda>i j. if i \<le> j then 1 else 0" "\<lambda>i j. 0"]
    block_residual_norms [of 2 min_policy_build "\<lambda>i j. if i \<le> j then 1 else 0" "\<lambda>i j. 0"]
  by (simp add: column_norm2_def min_policy_build_def default_build_def lessThan_Suc
      numeral_2_eq_2)

text \<open>The aggregate is never negative.\<close>

lemma block_aggregate_nonneg: "0 \<le> snd (snd (block_residuals bc nsrc C H))"
proof (cases "0 < nsrc")
  case False
  then show ?thesis by (simp add: block_residuals_def)
next
  case True
  have mn: "0 \<le> Min (column_norm2 nsrc C ` {..<nsrc})"
    using True by (subst Min_ge_iff) (auto simp: column_norm2_nonneg)
  have mx: "0 \<le> Max (column_norm2 nsrc C ` {..<nsrc})"
    using True by (subst Max_ge_iff) (auto simp: column_norm2_nonneg)
  from block_residual_norms [OF True, of bc C H] mn mx show ?thesis
    by (simp split: if_splits)
qed

text \<open>
  Claim C6 says that under the min policy the aggregate \<open>r2\<close> is the minimum of the column
  norms; the comments of the source say the same (line 1175, "reliable update policy is
  to use the smallest residual"), and under the max policy the code does take the
  maximum. Under the min policy the code starts from the literal \<open>1e30\<close> and only lowers
  it. For one column with \<open>C(0,0) = 10\<^sup>1\<^sup>6\<close> the loop writes the squared norm \<open>10\<^sup>3\<^sup>2\<close> into
  \<open>H(0,0)\<close>, the minimum over the columns is \<open>10\<^sup>3\<^sup>2\<close>, and the aggregate the code hands to
  \<open>block_reliable\<close> is \<open>10\<^sup>3\<^sup>0\<close>; the max policy gives \<open>10\<^sup>3\<^sup>2\<close> for the same \<open>C\<close>.
\<close>

theorem block_min_policy_capped:
  "snd (snd (block_residuals min_policy_build 1 (\<lambda>i j. 10 ^ 16) (\<lambda>i j. 0))) = 10 ^ 30 \<and>
   Re (fst (block_residuals min_policy_build 1 (\<lambda>i j. 10 ^ 16) (\<lambda>i j. 0)) 0 0) = 10 ^ 32 \<and>
   Min (column_norm2 1 (\<lambda>i j. 10 ^ 16) ` {..<1}) = 10 ^ 32 \<and>
   snd (snd (block_residuals default_build 1 (\<lambda>i j. 10 ^ 16) (\<lambda>i j. 0))) = 10 ^ 32"
  by (simp add: block_residuals_def residual_column_def residual_diag_def min_policy_build_def
      default_build_def column_norm2_def norm_power lessThan_Suc)

subsection \<open>The reliable-update test\<close>

lemma classical_trigger_equiv:
  fixes dl r0 mx mr rn :: real
  assumes "0 \<le> dl \<or> (0 \<le> rn \<and> 0 \<le> r0)" and "r0 \<le> mx" and "r0 \<le> mr"
  shows "rn < dl * max mr rn \<longleftrightarrow>
           (rn < dl * max mr rn \<and> r0 \<le> max mr rn) \<or> (rn < dl * r0 \<and> r0 \<le> max mx rn)"
proof -
  have le: "r0 \<le> max mr rn" using assms(3) by simp
  have "rn < dl * max mr rn" if lt: "rn < dl * r0"
  proof (cases "0 \<le> dl")
    case True
    from le have "dl * r0 \<le> dl * max mr rn"
      using True by (rule mult_left_mono)
    with lt show ?thesis by linarith
  next
    case False
    with assms(1) have nn: "0 \<le> rn" "0 \<le> r0" by simp_all
    from False nn(2) have "dl * r0 \<le> 0"
      by (simp add: mult_nonpos_nonneg)
    with lt nn(1) show ?thesis by linarith
  qed
  with le show ?thesis by blast
qed

lemma block_reliable_trigger:
  "fst (block_reliable rn mx mr rr dl) = (if sqrt rr < dl * max mr (sqrt rr) then 1 else 0)"
  by (simp add: block_reliable_def Let_def max_def)

text \<open>
  The tracked norms of the single right-hand-side solver in the classical policy:
  \<open>0 \<le> r0Norm \<le> maxrx\<close> and \<open>r0Norm \<le> maxrr\<close>. The preamble and every reliable update set
  the three to the root of the same squared norm, and between reliable updates the
  maxima only grow. The \<open>r2\<close> the conditions read is a squared norm as well.
\<close>

lemma tracked_cg_reduction_plain:
  "r0Norm (cg_reduction_plain c s) = r0Norm s" "maxrx (cg_reduction_plain c s) = maxrx s"
  "maxrr (cg_reduction_plain c s) = maxrr s"
  by (cases "ALTRELIABLE (bld c)";
      simp add: cg_reduction_plain_def cDotProductNormA_def axpyCGNorm_def Let_def)+

lemma tracked_cg_reduction_pipeline:
  "r0Norm (cg_reduction_pipeline c s) = r0Norm s" "maxrx (cg_reduction_pipeline c s) = maxrx s"
  "maxrr (cg_reduction_pipeline c s) = maxrr s"
  by (cases "ALTRELIABLE (bld c)";
      simp add: cg_reduction_pipeline_def quadrupleCGReduction_def tripleCGReduction_def
        axpyNorm_def Let_def)+

lemma tracked_cg_reduction:
  "r0Norm (cg_reduction c s) = r0Norm s" "maxrx (cg_reduction c s) = maxrx s"
  "maxrr (cg_reduction c s) = maxrr s"
  by (simp_all add: cg_reduction_def tracked_cg_reduction_plain tracked_cg_reduction_pipeline
      Let_def)

lemma tracked_force_update:
  "r0Norm (force_update c s) = r0Norm s" "maxrx (force_update c s) = maxrx s"
  "maxrr (force_update c s) = maxrr s"
  by (simp_all add: force_update_def Let_def)

lemma tracked_no_update:
  "r0Norm (no_update c s) = r0Norm s" "maxrx (no_update c s) = maxrx s"
  "maxrr (no_update c s) = maxrr s"
  by (simp_all add: no_update_def Let_def case_prod_beta)

lemma tracked_iteration_end:
  "r0Norm (iteration_end c s) = r0Norm s" "maxrx (iteration_end c s) = maxrx s"
  "maxrr (iteration_end c s) = maxrr s"
  by (simp_all add: iteration_end_def Let_def)

lemma tracked_ru_recompute:
  assumes "\<not> ALTRELIABLE (bld c)"
  shows "maxrx (ru_recompute c s) = r0Norm (ru_recompute c s)"
    and "maxrr (ru_recompute c s) = r0Norm (ru_recompute c s)"
  using assms by (simp_all add: ru_recompute_def Let_def case_prod_beta)

lemma tracked_ru_phases:
  "r0Norm (ru_hq_res c s) = r0Norm s" "maxrx (ru_hq_res c s) = maxrx s"
  "maxrr (ru_hq_res c s) = maxrr s"
  "r0Norm (fst (ru_break_out_check c s)) = r0Norm s"
  "maxrx (fst (ru_break_out_check c s)) = maxrx s"
  "maxrr (fst (ru_break_out_check c s)) = maxrr s"
  "r0Norm (fst (ru_hq_restart c s)) = r0Norm s" "maxrx (fst (ru_hq_restart c s)) = maxrx s"
  "maxrr (fst (ru_hq_restart c s)) = maxrr s"
  "r0Norm (ru_restart_p c s) = r0Norm s" "maxrx (ru_restart_p c s) = maxrx s"
  "maxrr (ru_restart_p c s) = maxrr s"
  "r0Norm (ru_finish s) = r0Norm s" "maxrx (ru_finish s) = maxrx s"
  "maxrr (ru_finish s) = maxrr s"
  by (simp_all add: ru_hq_res_def ru_break_out_check_def ru_hq_restart_def ru_restart_p_def
      ru_finish_def Let_def)

lemma tracked_reliable_update:
  assumes "\<not> ALTRELIABLE (bld c)"
  shows "maxrx (fst (reliable_update c s)) = r0Norm (fst (reliable_update c s)) \<and>
         maxrr (fst (reliable_update c s)) = r0Norm (fst (reliable_update c s))"
proof -
  obtain s1 b1 where 1: "ru_break_out_check c (ru_hq_res c (ru_recompute c s)) = (s1, b1)"
    by (cases "ru_break_out_check c (ru_hq_res c (ru_recompute c s))")
  obtain s2 b2 where 2: "ru_hq_restart c s1 = (s2, b2)"
    by (cases "ru_hq_restart c s1")
  have t1: "maxrx s1 = r0Norm s1" "maxrr s1 = r0Norm s1"
    using tracked_ru_phases(4-6) [of c "ru_hq_res c (ru_recompute c s)"] 1
      tracked_ru_recompute [OF assms, of s]
    by (simp_all add: tracked_ru_phases)
  have t2: "maxrx s2 = r0Norm s2" "maxrr s2 = r0Norm s2"
    using tracked_ru_phases(7-9) [of c s1] 2 t1 by simp_all
  show ?thesis
    by (simp add: reliable_update_def 1 2 t1 t2 tracked_ru_phases split: bool.splits)
qed

lemma ru_recompute_r0Norm_nonneg: "0 \<le> r0Norm (ru_recompute c s)"
  by (simp add: ru_recompute_r0Norm ru_recompute_r2 norm2_nonneg)

lemma reliable_update_r0Norm_nonneg: "0 \<le> r0Norm (fst (reliable_update c s))"
proof -
  obtain s1 b1 where 1: "ru_break_out_check c (ru_hq_res c (ru_recompute c s)) = (s1, b1)"
    by (cases "ru_break_out_check c (ru_hq_res c (ru_recompute c s))")
  obtain s2 b2 where 2: "ru_hq_restart c s1 = (s2, b2)"
    by (cases "ru_hq_restart c s1")
  have t1: "r0Norm s1 = r0Norm (ru_recompute c s)"
    using tracked_ru_phases(4) [of c "ru_hq_res c (ru_recompute c s)"] 1
    by (simp add: tracked_ru_phases)
  have t2: "r0Norm s2 = r0Norm s1"
    using tracked_ru_phases(7) [of c s1] 2 by simp
  show ?thesis
    using ru_recompute_r0Norm_nonneg [of c s]
    by (simp add: reliable_update_def 1 2 t1 t2 tracked_ru_phases split: bool.splits)
qed

lemma classical_tracking_invariant:
  assumes "\<not> ALTRELIABLE (bld c)"
    and "0 \<le> r0Norm s" and "r0Norm s \<le> maxrx s" and "r0Norm s \<le> maxrr s"
  shows "0 \<le> r0Norm (fst (cg_iteration c s)) \<and>
         r0Norm (fst (cg_iteration c s)) \<le> maxrx (fst (cg_iteration c s)) \<and>
         r0Norm (fst (cg_iteration c s)) \<le> maxrr (fst (cg_iteration c s))"
proof -
  define s1 where "s1 = force_update c (reliable_conditions c (cg_reduction c s))"
  have inv1: "0 \<le> r0Norm s1" "r0Norm s1 \<le> maxrx s1" "r0Norm s1 \<le> maxrr s1"
    using assms
    by (simp_all add: s1_def tracked_force_update reliable_conditions_def Let_def
        tracked_cg_reduction)
  show ?thesis
  proof (cases "updateR s1 \<noteq> 0 \<or> updateX s1 \<noteq> 0")
    case False
    then have "fst (cg_iteration c s) = iteration_end c (no_update c s1)"
      by (auto simp: cg_iteration_def s1_def [symmetric])
    with inv1 show ?thesis
      by (simp add: tracked_iteration_end tracked_no_update)
  next
    case True
    obtain s2 b2 where r: "reliable_update c s1 = (s2, b2)"
      by (cases "reliable_update c s1")
    from tracked_reliable_update [OF assms(1), of s1] r
    have t: "maxrx s2 = r0Norm s2" "maxrr s2 = r0Norm s2" by simp_all
    from reliable_update_r0Norm_nonneg [of c s1] r
    have n: "0 \<le> r0Norm s2" by simp
    from True r have "fst (cg_iteration c s) = (if b2 then s2 else iteration_end c s2)"
      by (auto simp: cg_iteration_def s1_def [symmetric])
    with t n show ?thesis
      by (simp add: tracked_iteration_end)
  qed
qed

lemma classical_tracking_initial:
  "0 \<le> r0Norm (snd (cg_init bc h pm xprec x b)) \<and>
   r0Norm (snd (cg_init bc h pm xprec x b)) = maxrx (snd (cg_init bc h pm xprec x b)) \<and>
   r0Norm (snd (cg_init bc h pm xprec x b)) = maxrr (snd (cg_init bc h pm xprec x b))"
  by (simp add: cg_init_def Let_def case_prod_beta xmyNorm_def norm2_nonneg)

lemma cg_reduction_r2_nonneg: "0 \<le> r2 (cg_reduction c s)"
proof (cases "param_pipeline (prm c)")
  case False
  then show ?thesis
    by (simp add: cg_reduction_def cg_reduction_plain_def axpyCGNorm_def Let_def case_prod_beta
        norm2_nonneg)
next
  case True
  then show ?thesis
    by (simp add: cg_reduction_def cg_reduction_pipeline_def axpyNorm_def Let_def case_prod_beta
        norm2_nonneg not_less)
qed

text \<open>
  The state of the default solve (\<open>1 \<cdot> x = 1\<close> from \<open>x = 0\<close>) on which the first iteration
  evaluates the reliable-update conditions.
\<close>

definition default_start :: cg_state where
  "default_start = snd (cg_init default_build identity_host default_param 8 [0] [1])"

lemma default_start_tracked:
  "r2 (cg_reduction default_ctx default_start) = 0"
  "r0Norm (cg_reduction default_ctx default_start) = 1"
  "maxrx (cg_reduction default_ctx default_start) = 1"
  "maxrr (cg_reduction default_ctx default_start) = 1"
  "delta (cg_reduction default_ctx default_start) = 1 / 2"
  by (simp_all add: cg_reduction_def cg_reduction_plain_def default_ctx_simps default_param_def
      default_build_def identity_host_def default_start_def cg_init_def Let_def case_prod_beta
      xmyNorm_def reDotProduct_def cDotProduct_def axpyCGNorm_def axpy_def caxpy_def norm2_def
      xmy_def set_rSloppy_def)

text \<open>
  Claim C3. For every aggregate \<open>r2\<close>, every \<open>delta\<close> and every tracked state
  (\<open>r0Norm \<le> maxrx\<close>, \<open>r0Norm \<le> maxrr\<close>), the test of \<open>CG::block_reliable\<close>, with
  \<open>rNorm = \<surd>r2\<close> and the maxima raised to at least \<open>rNorm\<close>, triggers if and only if
  \<open>(rNorm < delta \<cdot> maxrr \<and> r0Norm \<le> maxrr) \<or> (rNorm < delta \<cdot> r0Norm \<and> r0Norm \<le> maxrx)\<close>,
  and its result is the \<open>updateR\<close> that the classical branch of the single right-hand-side
  solver computes in that state. This holds for \<open>delta \<ge> 0\<close> whatever the sign of the
  other numbers, and for a negative \<open>delta\<close> as well when \<open>r2\<close> and \<open>r0Norm\<close> are not
  negative, as a squared norm and the root of one never are.
\<close>

theorem block_reliable_is_classical_test:
  assumes "\<not> ALTRELIABLE (bld c)"
    and "0 \<le> delta s \<or> (0 \<le> r2 s \<and> 0 \<le> r0Norm s)"
    and "r0Norm s \<le> maxrx s" and "r0Norm s \<le> maxrr s"
  shows "fst (block_reliable rn (maxrx s) (maxrr s) (r2 s) (delta s)) =
           (if sqrt (r2 s) < delta s * max (maxrr s) (sqrt (r2 s)) then 1 else 0) \<and>
         (fst (block_reliable rn (maxrx s) (maxrr s) (r2 s) (delta s)) \<noteq> 0 \<longleftrightarrow>
            (sqrt (r2 s) < delta s * max (maxrr s) (sqrt (r2 s)) \<and>
             r0Norm s \<le> max (maxrr s) (sqrt (r2 s))) \<or>
            (sqrt (r2 s) < delta s * r0Norm s \<and> r0Norm s \<le> max (maxrx s) (sqrt (r2 s)))) \<and>
         fst (block_reliable rn (maxrx s) (maxrr s) (r2 s) (delta s)) =
           updateR (reliable_conditions c s)"
proof -
  from assms(2) have "0 \<le> delta s \<or> (0 \<le> sqrt (r2 s) \<and> 0 \<le> r0Norm s)"
    by simp
  note eq = classical_trigger_equiv [OF this assms(3,4)]
  have 1: "fst (block_reliable rn (maxrx s) (maxrr s) (r2 s) (delta s)) =
           (if sqrt (r2 s) < delta s * max (maxrr s) (sqrt (r2 s)) then 1 else 0)"
    by (rule block_reliable_trigger)
  have 2: "fst (block_reliable rn (maxrx s) (maxrr s) (r2 s) (delta s)) \<noteq> 0 \<longleftrightarrow>
            (sqrt (r2 s) < delta s * max (maxrr s) (sqrt (r2 s)) \<and>
             r0Norm s \<le> max (maxrr s) (sqrt (r2 s))) \<or>
            (sqrt (r2 s) < delta s * r0Norm s \<and> r0Norm s \<le> max (maxrx s) (sqrt (r2 s)))"
    unfolding 1 using eq by simp
  have 3: "fst (block_reliable rn (maxrx s) (maxrr s) (r2 s) (delta s)) =
           updateR (reliable_conditions c s)"
    unfolding 1 reliable_conditions_updateR [OF assms(1)] using eq by simp
  from 1 2 3 show ?thesis by blast
qed

theorem block_reliable_is_classical_test_witness:
  "\<not> ALTRELIABLE (bld default_ctx) \<and>
   fst (block_reliable 1 1 1 0 (1 / 2)) = 1 \<and>
   updateR (reliable_conditions default_ctx (cg_reduction default_ctx default_start)) = 1"
  using block_reliable_is_classical_test
          [of default_ctx "cg_reduction default_ctx default_start" 1]
  by (simp add: default_start_tracked default_ctx_simps default_build_def)

subsection \<open>The heavy-quark residual in the block solver\<close>

lemma source_norms_cases:
  "source_norms b is acc = Inl Zero_field_source_block \<or> (\<exists>v. source_norms b is acc = Inr v)"
  by (induction b "is" acc rule: source_norms.induct) (simp_all add: Let_def)

lemma source_norms_nonzero:
  "(\<forall>i\<in>set is. norm2 (b i) \<noteq> 0) \<Longrightarrow> \<exists>v. source_norms b is acc = Inr v"
  by (induction b "is" acc rule: source_norms.induct) (simp_all add: Let_def)

text \<open>
  Claim C10. When \<open>param.residual_type\<close> has the heavy-quark bit, \<open>solve_n\<close> ends in a fatal
  error raised in its preamble, whatever the iterations would compute: the block solver
  runs none. For fields on the device and sources that are all nonzero (the two fatal
  checks that come first in the preamble), the error is the one of line 914, "heavy quark
  residual not supported in block solver".
\<close>

theorem block_heavy_quark_is_fatal:
  fixes iterations :: "(nat \<Rightarrow> real) \<times> real \<Rightarrow> 'res"
  assumes "param_residual_type pm AND QUDA_HEAVY_QUARK_RESIDUAL bc \<noteq> 0"
  shows "(\<exists>e. solve_n_preamble bc pm nsrc loc b = Inl e \<and>
              (\<forall>it :: (nat \<Rightarrow> real) \<times> real \<Rightarrow> 'res. solve_n bc pm it nsrc loc b = Inl e)) \<and>
         (loc = QUDA_CUDA_FIELD_LOCATION \<and> (\<forall>i<nsrc. norm2 (b i) \<noteq> 0) \<longrightarrow>
            solve_n bc pm iterations nsrc loc b = Inl Heavy_quark_not_supported_in_block)"
proof -
  have fatal: "\<exists>e. solve_n_preamble bc pm nsrc loc b = Inl e"
    using assms source_norms_cases [of b "[0..<nsrc]" "(\<lambda>i. 0, 0)"]
    by (auto simp: solve_n_preamble_def)
  then obtain e where e: "solve_n_preamble bc pm nsrc loc b = Inl e" ..
  have 1: "\<exists>e. solve_n_preamble bc pm nsrc loc b = Inl e \<and>
              (\<forall>it :: (nat \<Rightarrow> real) \<times> real \<Rightarrow> 'res. solve_n bc pm it nsrc loc b = Inl e)"
    using e by (auto simp: solve_n_def)
  have 2: "solve_n bc pm iterations nsrc loc b = Inl Heavy_quark_not_supported_in_block"
    if "loc = QUDA_CUDA_FIELD_LOCATION" and nz: "\<forall>i<nsrc. norm2 (b i) \<noteq> 0"
  proof -
    from nz have "\<forall>i\<in>set [0..<nsrc]. norm2 (b i) \<noteq> 0" by simp
    from source_norms_nonzero [OF this, of "(\<lambda>i. 0, 0)"]
    obtain v where "source_norms b [0..<nsrc] (\<lambda>i. 0, 0) = Inr v" ..
    with that(1) assms show ?thesis
      by (simp add: solve_n_def solve_n_preamble_def split: prod.splits)
  qed
  from 1 2 show ?thesis by blast
qed

theorem block_heavy_quark_is_fatal_witness:
  "param_residual_type (default_param\<lparr>param_residual_type := 5\<rparr>)
     AND QUDA_HEAVY_QUARK_RESIDUAL default_build \<noteq> 0 \<and>
   solve_n default_build (default_param\<lparr>param_residual_type := 5\<rparr>) (\<lambda>norms. fst norms 0) 2
     QUDA_CUDA_FIELD_LOCATION (\<lambda>i. [1, 1]) = Inl Heavy_quark_not_supported_in_block"
  using block_heavy_quark_is_fatal
          [of "default_param\<lparr>param_residual_type := 5\<rparr>" default_build 2
              QUDA_CUDA_FIELD_LOCATION "\<lambda>i. [1, 1]" "\<lambda>norms. fst norms 0"]
  by (simp add: default_param_def default_build_def norm2_def)

end
